theory Spec2Isabelle
  imports Main "HOL-Library.Sublist"
begin

section \<open>Data model\<close>

text \<open>
  The Go sources under verification are the A2A client (\<^verbatim>\<open>package client\<close>), the
  task manager of \<^verbatim>\<open>package server\<close> (\<^verbatim>\<open>mockTaskManager\<close>, an in-memory
  implementation of the \<^verbatim>\<open>TaskManager\<close> interface) and the task-manager error
  constructors (\<^verbatim>\<open>taskmanager/errors.go\<close>).  Go byte slices and
  strings are character lists, Go \<^verbatim>\<open>int\<close> is \<open>int\<close> (only small constants occur).
\<close>

type_synonym bytes = string

text \<open>
  Modelled from the spec: the \<^verbatim>\<open>TaskState\<close> enumeration (type declarations of package
  \<^verbatim>\<open>taskmanager\<close> are not among the sources).  Its values are \<^verbatim>\<open>submitted\<close>,
  \<^verbatim>\<open>working\<close>, \<^verbatim>\<open>input-required\<close>, \<^verbatim>\<open>completed\<close>, \<^verbatim>\<open>failed\<close> and
  \<^verbatim>\<open>canceled\<close>; the last three are final.
\<close>

datatype TaskState =
    TaskStateSubmitted
  | TaskStateWorking
  | TaskStateInputRequired
  | TaskStateCompleted
  | TaskStateFailed
  | TaskStateCanceled

fun TaskState_string :: "TaskState \<Rightarrow> string" where
  "TaskState_string TaskStateSubmitted = ''submitted''"
| "TaskState_string TaskStateWorking = ''working''"
| "TaskState_string TaskStateInputRequired = ''input-required''"
| "TaskState_string TaskStateCompleted = ''completed''"
| "TaskState_string TaskStateFailed = ''failed''"
| "TaskState_string TaskStateCanceled = ''canceled''"

fun isFinalState :: "TaskState \<Rightarrow> bool" where
  "isFinalState TaskStateCompleted = True"
| "isFinalState TaskStateFailed = True"
| "isFinalState TaskStateCanceled = True"
| "isFinalState _ = False"

text \<open>
  \<^verbatim>\<open>jsonrpc.Error\<close>: the structure the error constructors fill in.  Its \<^verbatim>\<open>Data\<close>
  field has type \<^verbatim>\<open>interface{}\<close>; every constructor below stores a string there.
\<close>

record jsonrpc_Error =
  Code :: int
  Message :: string
  Data :: string

text \<open>
  Go \<^verbatim>\<open>error\<close> values.  \<^verbatim>\<open>fmt.Errorf\<close> is kept symbolic: its format string and
  its arguments, so that an error wrapped with \<^verbatim>\<open>%w\<close> stays visible inside the
  wrapper.  \<open>ExternalError\<close> stands for an error produced outside the modelled code
  (\<^verbatim>\<open>encoding/json\<close>, \<^verbatim>\<open>net/http\<close>, \<^verbatim>\<open>io\<close>, or an error configured on the
  task manager); \<open>InvalidParams\<close> for the result of \<^verbatim>\<open>jsonrpc.ErrInvalidParams\<close>,
  whose source is not available.
\<close>

datatype error =
    ExternalError string
  | RPCError jsonrpc_Error
  | InvalidParams string
  | Errorf string "fmt_arg list"
and fmt_arg =
    ArgInt int
  | ArgStr string
  | ArgErr error

text \<open>
  Modelled from the spec: the message, artifact, status, task and event structures
  (section 3 of the specification; the type declarations of package \<^verbatim>\<open>taskmanager\<close>
  are not among the sources).  Field names follow the Go sources that use them.
\<close>

datatype Part = TextPart string | FilePart string | DataPart string

datatype Role = RoleUser | RoleAgent

record Message =
  Role :: Role
  Parts :: "Part list"

record Artifact =
  Index :: int
  Parts :: "Part list"
  Append :: bool
  LastChunk :: bool

record TaskStatus =
  State :: TaskState
  Timestamp :: string

record Task =
  ID :: string
  SessionID :: "string option"
  Status :: TaskStatus
  History :: "Message list"
  Artifacts :: "Artifact list"

record TaskStatusUpdateEvent =
  ID :: string
  Status :: TaskStatus
  Final :: bool

record TaskArtifactUpdateEvent =
  ID :: string
  Artifact :: Artifact

datatype TaskEvent =
    StatusUpdate TaskStatusUpdateEvent
  | ArtifactUpdate TaskArtifactUpdateEvent

record SendTaskParams =
  ID :: string
  SessionID :: "string option"
  Message :: Message

record TaskQueryParams =
  ID :: string

record TaskIDParams =
  ID :: string

text \<open>
  Modelled from the spec: \<^verbatim>\<open>taskmanager.NewTask\<close> (not among the sources).  A new
  task carries the given ID and session, is in state \<^verbatim>\<open>submitted\<close>, is timestamped,
  and has no history and no artifacts yet.
\<close>

definition NewTask :: "string \<Rightarrow> string option \<Rightarrow> string \<Rightarrow> Task" where
  "NewTask taskID sessionID now =
     \<lparr> Task.ID = taskID, Task.SessionID = sessionID,
       Task.Status = \<lparr> State = TaskStateSubmitted, Timestamp = now \<rparr>,
       History = [], Artifacts = [] \<rparr>"

section \<open>Channels\<close>

text \<open>
  A Go channel of task events, seen from outside: the events sent on it so far, in
  order (a receiver gets exactly these, first in first out), and whether it has been
  closed.  Sending on a closed channel and closing a closed channel panic, as does reading a
  field through a \<^verbatim>\<open>nil\<close> pointer.
\<close>

record chan =
  sent :: "TaskEvent list"
  closed :: bool

datatype panic = SendOnClosedChannel | CloseOfClosedChannel | NilPointerDereference

definition make_chan :: chan where
  "make_chan = \<lparr> sent = [], closed = False \<rparr>"

definition chan_send :: "chan \<Rightarrow> TaskEvent \<Rightarrow> panic + chan" where
  "chan_send c ev =
     (if closed c then Inl SendOnClosedChannel else Inr (c\<lparr>sent := sent c @ [ev]\<rparr>))"

definition chan_close :: "chan \<Rightarrow> panic + chan" where
  "chan_close c =
     (if closed c then Inl CloseOfClosedChannel else Inr (c\<lparr>closed := True\<rparr>))"

section \<open>Task-manager error constructors (taskmanager/errors.go)\<close>

definition ErrCodeTaskNotFound :: int where
  "ErrCodeTaskNotFound = - 32001"

definition ErrCodeTaskFinal :: int where
  "ErrCodeTaskFinal = - 32002"

definition ErrCodePushNotificationNotConfigured :: int where
  "ErrCodePushNotificationNotConfigured = - 32003"

text \<open>The apostrophe that the \<^verbatim>\<open>Sprintf\<close> formats put around a task ID.\<close>

definition apostrophe :: string where
  "apostrophe = [CHR 0x27]"

definition ErrTaskNotFound :: "string \<Rightarrow> jsonrpc_Error" where
  "ErrTaskNotFound taskID =
     \<lparr> Code = ErrCodeTaskNotFound,
       jsonrpc_Error.Message = ''Task not found'',
       Data = ''Task with ID '' @ apostrophe @ taskID @ apostrophe @ '' was not found.'' \<rparr>"

definition ErrTaskFinalState :: "string \<Rightarrow> TaskState \<Rightarrow> jsonrpc_Error" where
  "ErrTaskFinalState taskID state =
     \<lparr> Code = ErrCodeTaskFinal,
       jsonrpc_Error.Message = ''Task is in final state'',
       Data = ''Task '' @ apostrophe @ taskID @ apostrophe
              @ '' is already in final state: '' @ TaskState_string state \<rparr>"

definition ErrPushNotificationNotConfigured :: "string \<Rightarrow> jsonrpc_Error" where
  "ErrPushNotificationNotConfigured taskID =
     \<lparr> Code = ErrCodePushNotificationNotConfigured,
       jsonrpc_Error.Message = ''Push Notification not configured'',
       Data = ''Task '' @ apostrophe @ taskID @ apostrophe
              @ '' does not have push notifications configured.'' \<rparr>"

section \<open>The task manager of package server (mockTaskManager)\<close>

text \<open>
  The manager keeps \<^verbatim>\<open>map[string]*Task\<close>: tasks are held by pointer, and both the map
  and a configured response may point to the same object.  Pointers are addresses into
  \<open>heap\<close>; \<open>nextPtr\<close> is the next address an allocation returns.  The mutex makes each
  operation atomic, so an operation is a function from the manager before the call to
  the manager after it and the returned values.  The current time, which the Go code
  reads from the clock in \<^verbatim>\<open>getCurrentTimestamp\<close>, is the parameter \<open>now\<close>.
\<close>

record mockTaskManager =
  heap :: "nat \<Rightarrow> Task"
  nextPtr :: nat
  tasks :: "string \<rightharpoonup> nat"
  SendResponse :: "nat option"
  SendError :: "error option"
  GetResponse :: "nat option"
  GetError :: "error option"
  CancelResponse :: "nat option"
  CancelError :: "error option"
  SubscribeEvents :: "TaskEvent list"
  SubscribeError :: "error option"

definition newMockTaskManager :: mockTaskManager where
  "newMockTaskManager =
     \<lparr> heap = (\<lambda>_. NewTask [] None []), nextPtr = 0, tasks = Map.empty,
       SendResponse = None, SendError = None, GetResponse = None, GetError = None,
       CancelResponse = None, CancelError = None,
       SubscribeEvents = [], SubscribeError = None \<rparr>"

definition OnSendTask ::
  "mockTaskManager \<Rightarrow> string \<Rightarrow> SendTaskParams \<Rightarrow> mockTaskManager \<times> (error + nat)" where
  "OnSendTask m now params =
     (case SendError m of
        Some e \<Rightarrow> (m, Inl e)
      | None \<Rightarrow>
          if SendTaskParams.ID params = [] then
            (m, Inl (InvalidParams ''task ID is required''))
          else if length (Message.Parts (SendTaskParams.Message params)) = 0 then
            (m, Inl (InvalidParams ''message must have at least one part''))
          else
            (case SendResponse m of
               Some r \<Rightarrow> (m\<lparr>tasks := (tasks m)(Task.ID (heap m r) \<mapsto> r)\<rparr>, Inr r)
             | None \<Rightarrow>
                 let task = nextPtr m;
                     m1 = m\<lparr>heap := (heap m)(task :=
                              NewTask (SendTaskParams.ID params) (SendTaskParams.SessionID params) now),
                            nextPtr := Suc task\<rparr>;
                     m2 = m1\<lparr>heap := (heap m1)(task := (heap m1 task)
                              \<lparr>Task.Status := \<lparr>State = TaskStateSubmitted, Timestamp = now\<rparr>\<rparr>)\<rparr>;
                     m3 = m2\<lparr>tasks := (tasks m2)(Task.ID (heap m2 task) \<mapsto> task)\<rparr>
                 in (m3, Inr task)))"

definition OnGetTask ::
  "mockTaskManager \<Rightarrow> TaskQueryParams \<Rightarrow> error + nat" where
  "OnGetTask m params =
     (case GetError m of
        Some e \<Rightarrow> Inl e
      | None \<Rightarrow>
          (case GetResponse m of
             Some r \<Rightarrow> Inr r
           | None \<Rightarrow>
               (case tasks m (TaskQueryParams.ID params) of
                  None \<Rightarrow> Inl (RPCError (ErrTaskNotFound (TaskQueryParams.ID params)))
                | Some task \<Rightarrow> Inr task)))"

definition OnCancelTask ::
  "mockTaskManager \<Rightarrow> string \<Rightarrow> TaskIDParams \<Rightarrow> mockTaskManager \<times> (error + nat)" where
  "OnCancelTask m now params =
     (case CancelError m of
        Some e \<Rightarrow> (m, Inl e)
      | None \<Rightarrow>
          (case CancelResponse m of
             Some r \<Rightarrow> (m, Inr r)
           | None \<Rightarrow>
               (case tasks m (TaskIDParams.ID params) of
                  None \<Rightarrow> (m, Inl (RPCError (ErrTaskNotFound (TaskIDParams.ID params))))
                | Some task \<Rightarrow>
                    let m1 = m\<lparr>heap := (heap m)(task := (heap m task)
                               \<lparr>Task.Status := (Task.Status (heap m task))
                                  \<lparr>State := TaskStateCanceled\<rparr>\<rparr>)\<rparr>;
                        m2 = m1\<lparr>heap := (heap m1)(task := (heap m1 task)
                               \<lparr>Task.Status := (Task.Status (heap m1 task))
                                  \<lparr>Timestamp := now\<rparr>\<rparr>)\<rparr>
                    in (m2, Inr task))))"

text \<open>
  \<^verbatim>\<open>OnResubscribe\<close> returns a fresh channel and starts a goroutine that feeds it.  The
  channel's capacity is the number of configured events plus one, so a send never
  blocks; each \<^verbatim>\<open>select\<close> therefore sends, unless the context is done and the
  \<^verbatim>\<open>ctx.Done()\<close> case is the one taken.  \<open>ctxSelected i\<close> tells whether the
  \<open>i\<close>-th \<^verbatim>\<open>select\<close> of the goroutine takes that case.  \<open>IsFinal\<close> is the
  \<^verbatim>\<open>IsFinal\<close> method of the event interface, whose source is not available.
\<close>

fun sendConfigured ::
  "(TaskEvent \<Rightarrow> bool) \<Rightarrow> (nat \<Rightarrow> bool) \<Rightarrow> nat \<Rightarrow> TaskEvent list \<Rightarrow> chan \<Rightarrow> panic + chan" where
  "sendConfigured IsFinal ctxSelected i [] eventCh = chan_close eventCh"
| "sendConfigured IsFinal ctxSelected i (event # rest) eventCh =
     (if ctxSelected i then chan_close eventCh
      else
        (case chan_send eventCh event of
           Inl p \<Rightarrow> Inl p
         | Inr eventCh' \<Rightarrow>
             if IsFinal event then chan_close eventCh'
             else sendConfigured IsFinal ctxSelected (Suc i) rest eventCh'))"

definition sendDefaultCompleted ::
  "(nat \<Rightarrow> bool) \<Rightarrow> string \<Rightarrow> TaskIDParams \<Rightarrow> chan \<Rightarrow> panic + chan" where
  "sendDefaultCompleted ctxSelected now params eventCh =
     (let completedEvent =
            \<lparr> TaskStatusUpdateEvent.ID = TaskIDParams.ID params,
              TaskStatusUpdateEvent.Status = \<lparr>State = TaskStateCompleted, Timestamp = now\<rparr>,
              Final = True \<rparr>
      in if ctxSelected 0 then chan_close eventCh
         else
           (case chan_send eventCh (StatusUpdate completedEvent) of
              Inl p \<Rightarrow> Inl p
            | Inr eventCh' \<Rightarrow> chan_close eventCh'))"

text \<open>
  The result of \<^verbatim>\<open>OnResubscribe\<close> is the error, or the returned channel in the state
  in which the goroutine leaves it (or the panic of that goroutine).  The manager
  itself is not modified.
\<close>

definition OnResubscribe ::
  "mockTaskManager \<Rightarrow> (TaskEvent \<Rightarrow> bool) \<Rightarrow> (nat \<Rightarrow> bool) \<Rightarrow> string \<Rightarrow> TaskIDParams
     \<Rightarrow> error + (panic + chan)" where
  "OnResubscribe m IsFinal ctxSelected now params =
     (case SubscribeError m of
        Some e \<Rightarrow> Inl e
      | None \<Rightarrow>
          (case tasks m (TaskIDParams.ID params) of
             None \<Rightarrow> Inl (RPCError (ErrTaskNotFound (TaskIDParams.ID params)))
           | Some _ \<Rightarrow>
               let eventCh = make_chan
               in if length (SubscribeEvents m) > 0
                  then Inr (sendConfigured IsFinal ctxSelected 0 (SubscribeEvents m) eventCh)
                  else Inr (sendDefaultCompleted ctxSelected now params eventCh)))"

section \<open>The A2A client: protocol constants and external operations\<close>

text \<open>
  Modelled from the spec: the constants of package \<^verbatim>\<open>protocol\<close> (not among the
  sources): the three SSE event types and the JSON-RPC method names.
\<close>

definition EventTaskStatusUpdate :: string where
  "EventTaskStatusUpdate = ''task_status_update''"

definition EventTaskArtifactUpdate :: string where
  "EventTaskArtifactUpdate = ''task_artifact_update''"

definition EventClose :: string where
  "EventClose = ''close''"

definition MethodTasksSend :: string where
  "MethodTasksSend = ''tasks/send''"

definition MethodTasksGet :: string where
  "MethodTasksGet = ''tasks/get''"

definition MethodTasksCancel :: string where
  "MethodTasksCancel = ''tasks/cancel''"

definition MethodTasksSendSubscribe :: string where
  "MethodTasksSendSubscribe = ''tasks/sendSubscribe''"

text \<open>
  Modelled from the spec: the JSON-RPC envelope of package \<^verbatim>\<open>jsonrpc\<close> (not among the
  sources).  A request carries a method, an ID and raw parameters; a raw response
  carries an optional error and the raw bytes of the result.
\<close>

record Request =
  Method :: string
  ID :: string
  Params :: bytes

definition NewRequest :: "string \<Rightarrow> string \<Rightarrow> Request" where
  "NewRequest method reqID = \<lparr> Method = method, Request.ID = reqID, Params = [] \<rparr>"

record RawResponse =
  Error :: "jsonrpc_Error option"
  Result :: bytes

text \<open>
  HTTP messages as far as the client looks at them.  \<open>Body\<close> and \<open>ReadErr\<close> of a
  response are what \<^verbatim>\<open>io.ReadAll(resp.Body)\<close> returns.
\<close>

record HTTPRequest =
  URL :: string
  Header :: "string \<rightharpoonup> string"
  Body :: bytes

record HTTPResponse =
  StatusCode :: int
  Header :: "string \<rightharpoonup> string"
  Body :: bytes
  ReadErr :: "error option"

definition Header_Set :: "HTTPRequest \<Rightarrow> string \<Rightarrow> string \<Rightarrow> HTTPRequest" where
  "Header_Set req k v = req\<lparr>HTTPRequest.Header := (HTTPRequest.Header req)(k \<mapsto> v)\<rparr>"

definition Header_Get :: "HTTPResponse \<Rightarrow> string \<Rightarrow> string" where
  "Header_Get resp k = (case HTTPResponse.Header resp k of None \<Rightarrow> [] | Some v \<Rightarrow> v)"

text \<open>\<^verbatim>\<open>strings.Contains s substr\<close>: some suffix of \<open>s\<close> starts with \<open>substr\<close>.\<close>

fun strings_Contains :: "string \<Rightarrow> string \<Rightarrow> bool" where
  "strings_Contains [] substr = (substr = [])"
| "strings_Contains (c # s) substr = (prefix substr (c # s) \<or> strings_Contains s substr)"

text \<open>
  The operations the client calls outside its own package: JSON encoding and decoding,
  building an HTTP request, and the round trip of the configured \<^verbatim>\<open>http.Client\<close>.
  Each may fail; the client's code decides what happens then.
\<close>

record externals =
  Marshal_SendTaskParams :: "SendTaskParams \<Rightarrow> error + bytes"
  Marshal_TaskQueryParams :: "TaskQueryParams \<Rightarrow> error + bytes"
  Marshal_TaskIDParams :: "TaskIDParams \<Rightarrow> error + bytes"
  Marshal_Request :: "Request \<Rightarrow> error + bytes"
  NewRequestWithContext :: "string \<Rightarrow> string \<Rightarrow> bytes \<Rightarrow> error + HTTPRequest"
  httpClient_Do :: "HTTPRequest \<Rightarrow> error + HTTPResponse"
  Unmarshal_RawResponse :: "bytes \<Rightarrow> error + RawResponse"
  Unmarshal_Task :: "bytes \<Rightarrow> error + Task"

record A2AClient =
  baseURL :: string
  userAgent :: string

definition MethodPost :: string where
  "MethodPost = ''POST''"

definition StatusOK :: int where
  "StatusOK = 200"

section \<open>The A2A client: synchronous operations\<close>

text \<open>
  The Go functions return a pair \<^verbatim>\<open>(value, error)\<close>; the model keeps the pair, with
  \<open>None\<close> for \<^verbatim>\<open>nil\<close>.  Diagnostic log output of these functions is not modelled.
\<close>

definition doRequest ::
  "A2AClient \<Rightarrow> externals \<Rightarrow> Request \<Rightarrow> RawResponse option \<times> error option" where
  "doRequest c x request =
     (case Marshal_Request x request of
        Inl err \<Rightarrow>
          (None, Some (Errorf ''a2aClient.doRequest: failed to marshal request: %w'' [ArgErr err]))
      | Inr reqBody \<Rightarrow>
          let targetURL = baseURL c
          in (case NewRequestWithContext x MethodPost targetURL reqBody of
                Inl err \<Rightarrow>
                  (None, Some (Errorf ''a2aClient.doRequest: failed to create http request: %w''
                                 [ArgErr err]))
              | Inr req0 \<Rightarrow>
                  let req1 = Header_Set req0 ''Content-Type'' ''application/json; charset=utf-8'';
                      req2 = Header_Set req1 ''Accept'' ''application/json'';
                      req = (if userAgent c \<noteq> [] then Header_Set req2 ''User-Agent'' (userAgent c)
                             else req2)
                  in (case httpClient_Do x req of
                        Inl err \<Rightarrow>
                          (None, Some (Errorf ''a2aClient.doRequest: http request failed: %w''
                                         [ArgErr err]))
                      | Inr resp \<Rightarrow>
                          let respBodyBytes = HTTPResponse.Body resp
                          in if StatusCode resp < 200 \<or> StatusCode resp \<ge> 300 then
                               (None, Some (Errorf ''a2aClient.doRequest: unexpected http status %d: %s''
                                              [ArgInt (StatusCode resp), ArgStr respBodyBytes]))
                             else
                               (case Unmarshal_RawResponse x respBodyBytes of
                                  Inl err \<Rightarrow>
                                    (None, Some (Errorf
                                      ''a2aClient.doRequest: failed to decode response body (status %d): %w. Body: %s''
                                      [ArgInt (StatusCode resp), ArgErr err, ArgStr respBodyBytes]))
                                | Inr response \<Rightarrow> (Some response, None)))))"

text \<open>
  \<^verbatim>\<open>doRequestAndDecodeTask\<close> reads \<^verbatim>\<open>fullResponse.Error\<close> as soon as the error of
  \<^verbatim>\<open>doRequest\<close> is \<^verbatim>\<open>nil\<close>; were the response pointer \<^verbatim>\<open>nil\<close> too, that read
  would panic.
\<close>

definition doRequestAndDecodeTask ::
  "A2AClient \<Rightarrow> externals \<Rightarrow> Request \<Rightarrow> panic + (Task option \<times> error option)" where
  "doRequestAndDecodeTask c x request =
     (case doRequest c x request of
        (_, Some err) \<Rightarrow> Inr (None, Some err)
      | (None, None) \<Rightarrow> Inl NilPointerDereference
      | (Some fullResponse, None) \<Rightarrow>
          (case Error fullResponse of
             Some e \<Rightarrow> Inr (None, Some (RPCError e))
           | None \<Rightarrow>
               if length (Result fullResponse) = 0 then
                 Inr (None, Some (Errorf ''rpc response missing required 'result' field for id %v''
                                    [ArgStr (Request.ID request)]))
               else
                 (case Unmarshal_Task x (Result fullResponse) of
                    Inl err \<Rightarrow>
                      Inr (None, Some (Errorf ''failed to unmarshal rpc result: %w. Raw result: %s''
                                         [ArgErr err, ArgStr (Result fullResponse)]))
                  | Inr task \<Rightarrow> Inr (Some task, None))))"

definition SendTasks ::
  "A2AClient \<Rightarrow> externals \<Rightarrow> SendTaskParams \<Rightarrow> panic + (Task option \<times> error option)" where
  "SendTasks c x params =
     (let request = NewRequest MethodTasksSend (SendTaskParams.ID params)
      in (case Marshal_SendTaskParams x params of
            Inl err \<Rightarrow>
              Inr (None, Some (Errorf ''a2aClient.SendTasks: failed to marshal params: %w''
                                 [ArgErr err]))
          | Inr paramsBytes \<Rightarrow>
              (case doRequestAndDecodeTask c x (request\<lparr>Params := paramsBytes\<rparr>) of
                 Inl p \<Rightarrow> Inl p
               | Inr (task, Some err) \<Rightarrow>
                   Inr (None, Some (Errorf ''a2aClient.SendTasks: %w'' [ArgErr err]))
               | Inr (task, None) \<Rightarrow> Inr (task, None))))"

definition GetTasks ::
  "A2AClient \<Rightarrow> externals \<Rightarrow> TaskQueryParams \<Rightarrow> panic + (Task option \<times> error option)" where
  "GetTasks c x params =
     (let request = NewRequest MethodTasksGet (TaskQueryParams.ID params)
      in (case Marshal_TaskQueryParams x params of
            Inl err \<Rightarrow>
              Inr (None, Some (Errorf ''a2aClient.GetTasks: failed to marshal params: %w''
                                 [ArgErr err]))
          | Inr paramsBytes \<Rightarrow>
              (case doRequestAndDecodeTask c x (request\<lparr>Params := paramsBytes\<rparr>) of
                 Inl p \<Rightarrow> Inl p
               | Inr (task, Some err) \<Rightarrow>
                   Inr (None, Some (Errorf ''a2aClient.GetTasks: %w'' [ArgErr err]))
               | Inr (task, None) \<Rightarrow> Inr (task, None))))"

definition CancelTasks ::
  "A2AClient \<Rightarrow> externals \<Rightarrow> TaskIDParams \<Rightarrow> panic + (Task option \<times> error option)" where
  "CancelTasks c x params =
     (let request = NewRequest MethodTasksCancel (TaskIDParams.ID params)
      in (case Marshal_TaskIDParams x params of
            Inl err \<Rightarrow>
              Inr (None, Some (Errorf ''a2aClient.CancelTasks: failed to marshal params: %w''
                                 [ArgErr err]))
          | Inr paramsBytes \<Rightarrow>
              (case doRequestAndDecodeTask c x (request\<lparr>Params := paramsBytes\<rparr>) of
                 Inl p \<Rightarrow> Inl p
               | Inr (task, Some err) \<Rightarrow>
                   Inr (None, Some (Errorf ''a2aClient.CancelTasks: %w'' [ArgErr err]))
               | Inr (task, None) \<Rightarrow> Inr (task, None))))"

section \<open>The A2A client: streaming\<close>

text \<open>
  What \<^verbatim>\<open>StreamTask\<close> returns and does: the two returned values, whether it closed the
  response body itself, and the goroutine it started, if any, given by the arguments of
  \<^verbatim>\<open>go c.processSSEStream(ctx, resp, params.ID, eventsChan)\<close>.
\<close>

record StreamTaskOutcome =
  retChan :: "chan option"
  retErr :: "error option"
  bodyClosed :: bool
  readerStarted :: "(HTTPResponse \<times> string \<times> chan) option"

definition StreamTask :: "A2AClient \<Rightarrow> externals \<Rightarrow> SendTaskParams \<Rightarrow> StreamTaskOutcome" where
  "StreamTask c x params =
     (let request = NewRequest MethodTasksSendSubscribe (SendTaskParams.ID params);
          failed = (\<lambda>e closedBody. \<lparr> retChan = None, retErr = Some e, bodyClosed = closedBody,
                                     readerStarted = None \<rparr>)
      in (case Marshal_SendTaskParams x params of
            Inl err \<Rightarrow>
              failed (Errorf ''a2aClient.StreamTask: failed to marshal params: %w'' [ArgErr err]) False
          | Inr paramsBytes \<Rightarrow>
              (case Marshal_Request x (request\<lparr>Params := paramsBytes\<rparr>) of
                 Inl err \<Rightarrow>
                   failed (Errorf ''a2aClient.StreamTask: failed to marshal request body: %w''
                             [ArgErr err]) False
               | Inr reqBody \<Rightarrow>
                   let targetURL = baseURL c
                   in (case NewRequestWithContext x MethodPost targetURL reqBody of
                         Inl err \<Rightarrow>
                           failed (Errorf ''a2aClient.StreamTask: failed to create http request: %w''
                                     [ArgErr err]) False
                       | Inr req0 \<Rightarrow>
                           let req1 = Header_Set req0 ''Content-Type''
                                        ''application/json; charset=utf-8'';
                               req2 = Header_Set req1 ''Accept'' ''text/event-stream'';
                               req = (if userAgent c \<noteq> []
                                      then Header_Set req2 ''User-Agent'' (userAgent c) else req2)
                           in (case httpClient_Do x req of
                                 Inl err \<Rightarrow>
                                   failed (Errorf ''a2aClient.StreamTask: http request failed: %w''
                                             [ArgErr err]) False
                               | Inr resp \<Rightarrow>
                                   if StatusCode resp \<noteq> StatusOK then
                                     failed (Errorf
                                       ''a2aClient.StreamTask: unexpected http status %d establishing stream: %s''
                                       [ArgInt (StatusCode resp), ArgStr (HTTPResponse.Body resp)]) True
                                   else if \<not> strings_Contains (Header_Get resp ''Content-Type'')
                                                ''text/event-stream'' then
                                     failed (Errorf
                                       ''a2aClient.StreamTask: server did not respond with Content-Type 'text/event-stream', got %s''
                                       [ArgStr (Header_Get resp ''Content-Type'')]) True
                                   else
                                     let eventsChan = make_chan
                                     in \<lparr> retChan = Some eventsChan, retErr = None,
                                          bodyClosed = False,
                                          readerStarted =
                                            Some (resp, SendTaskParams.ID params, eventsChan) \<rparr>)))))"

section \<open>The A2A client: the stream reader\<close>

text \<open>
  \<^verbatim>\<open>processSSEStream\<close> runs until something stops it, so its surroundings are given per
  iteration of its \<^verbatim>\<open>for\<close> loop.  Every iteration that gets past the context check
  calls \<^verbatim>\<open>reader.ReadEvent()\<close> exactly once, so iteration \<open>i\<close> makes the \<open>i\<close>-th
  call:
  \<^item> \<open>ctxDone i\<close>: \<^verbatim>\<open>ctx.Done()\<close> is ready at the \<^verbatim>\<open>select\<close> that opens iteration
    \<open>i\<close> (that \<^verbatim>\<open>select\<close> has a \<^verbatim>\<open>default\<close> case, so it never waits);
  \<^item> \<open>ReadEvent i\<close>: the triple \<^verbatim>\<open>(eventBytes, eventType, err)\<close> returned by the
    \<open>i\<close>-th call of the SSE reader (package \<^verbatim>\<open>internal/sse\<close>, not among the
    sources);
  \<^item> \<open>sendSelect i\<close>: how the \<^verbatim>\<open>select\<close> around the channel send of iteration \<open>i\<close>
    ends: the event is sent, the \<^verbatim>\<open>ctx.Done()\<close> case is taken, or neither case ever
    becomes ready (the buffer is full, nobody receives, the context is never cancelled);
  \<^item> the two JSON decoders of \<^verbatim>\<open>encoding/json\<close>.
\<close>

datatype select_case = SelectSend | SelectCtxDone | SelectNever

record sse_env =
  ctxDone :: "nat \<Rightarrow> bool"
  ReadEvent :: "nat \<Rightarrow> bytes \<times> string \<times> error option"
  sendSelect :: "nat \<Rightarrow> select_case"
  Unmarshal_TaskStatusUpdateEvent :: "bytes \<Rightarrow> error + TaskStatusUpdateEvent"
  Unmarshal_TaskArtifactUpdateEvent :: "bytes \<Rightarrow> error + TaskArtifactUpdateEvent"

text \<open>
  \<^verbatim>\<open>io.EOF\<close>, the error value that marks the end of the stream; the reader
  compares the error it gets with this value.
\<close>

definition io_EOF :: error where
  "io_EOF = ExternalError ''EOF''"

text \<open>
  The log calls of the reader, one constructor per call site, named after the log
  function called there; the arguments are those of the Go call (without
  \<^verbatim>\<open>ctx.Err()\<close>).
\<close>

datatype sse_log =
    Debugf_ProcessorStarted string
  | Debugf_ContextCanceled string
  | Debugf_StreamEndedEOF string
  | Errorf_ErrorReadingStream string error
  | Debugf_ReceivedClose string bytes
  | Errorf_UnmarshalStatus string error bytes
  | Errorf_UnmarshalArtifact string error bytes
  | Warnf_UnknownEventType string string bytes
  | Debugf_ContextCanceledWhileSending string

record sse_state =
  eventsChan :: chan
  logged :: "sse_log list"

text \<open>
  One iteration of the loop: it ends in \<^verbatim>\<open>continue\<close> (or falls through to the next
  iteration), in \<^verbatim>\<open>return\<close>, in a \<^verbatim>\<open>select\<close> that waits for ever, or in a panic.
\<close>

datatype iteration =
    Continue sse_state
  | Return sse_state
  | WaitForever
  | Panicked panic

definition logf :: "sse_state \<Rightarrow> sse_log \<Rightarrow> sse_state" where
  "logf st l = st\<lparr>logged := logged st @ [l]\<rparr>"

definition sendEvent :: "sse_env \<Rightarrow> string \<Rightarrow> nat \<Rightarrow> sse_state \<Rightarrow> TaskEvent \<Rightarrow> iteration" where
  "sendEvent env taskID i st taskEvent =
     (case sendSelect env i of
        SelectSend \<Rightarrow>
          (case chan_send (eventsChan st) taskEvent of
             Inl p \<Rightarrow> Panicked p
           | Inr ch \<Rightarrow> Continue (st\<lparr>eventsChan := ch\<rparr>))
      | SelectCtxDone \<Rightarrow> Return (logf st (Debugf_ContextCanceledWhileSending taskID))
      | SelectNever \<Rightarrow> WaitForever)"

definition loopBody :: "sse_env \<Rightarrow> string \<Rightarrow> nat \<Rightarrow> sse_state \<Rightarrow> iteration" where
  "loopBody env taskID i st =
     (if ctxDone env i then Return (logf st (Debugf_ContextCanceled taskID))
      else
        (case ReadEvent env i of
           (eventBytes, eventType, Some err) \<Rightarrow>
             if err = io_EOF then Return (logf st (Debugf_StreamEndedEOF taskID))
             else Return (logf st (Errorf_ErrorReadingStream taskID err))
         | (eventBytes, eventType, None) \<Rightarrow>
             if length eventBytes = 0 then Continue st
             else if eventType = EventClose then
               Return (logf st (Debugf_ReceivedClose taskID eventBytes))
             else if eventType = EventTaskStatusUpdate then
               (case Unmarshal_TaskStatusUpdateEvent env eventBytes of
                  Inl err \<Rightarrow> Continue (logf st (Errorf_UnmarshalStatus taskID err eventBytes))
                | Inr statusEvent \<Rightarrow> sendEvent env taskID i st (StatusUpdate statusEvent))
             else if eventType = EventTaskArtifactUpdate then
               (case Unmarshal_TaskArtifactUpdateEvent env eventBytes of
                  Inl err \<Rightarrow> Continue (logf st (Errorf_UnmarshalArtifact taskID err eventBytes))
                | Inr artifactEvent \<Rightarrow> sendEvent env taskID i st (ArtifactUpdate artifactEvent))
             else Continue (logf st (Warnf_UnknownEventType eventType taskID eventBytes))))"

text \<open>
  The \<^verbatim>\<open>for\<close> loop.  It has no bound: \<open>None\<close> is a run that never returns.
\<close>

partial_function (option) readLoop ::
  "sse_env \<Rightarrow> string \<Rightarrow> nat \<Rightarrow> sse_state \<Rightarrow> (panic + sse_state) option" where
  "readLoop env taskID i st =
     (case loopBody env taskID i st of
        Continue st' \<Rightarrow> readLoop env taskID (Suc i) st'
      | Return st' \<Rightarrow> Some (Inr st')
      | WaitForever \<Rightarrow> None
      | Panicked p \<Rightarrow> Some (Inl p))"

text \<open>
  The whole function: the loop, then the deferred calls in reverse order of their
  \<^verbatim>\<open>defer\<close> statements, \<^verbatim>\<open>close(eventsChan)\<close> first and \<^verbatim>\<open>resp.Body.Close()\<close>
  second.  A panic ends the goroutine (and the program) with that panic.
\<close>

record sse_result =
  channel :: chan
  respBodyClosed :: bool
  logs :: "sse_log list"

definition processSSEStream ::
  "sse_env \<Rightarrow> string \<Rightarrow> chan \<Rightarrow> (panic + sse_result) option" where
  "processSSEStream env taskID ch =
     (case readLoop env taskID 0 \<lparr> eventsChan = ch, logged = [Debugf_ProcessorStarted taskID] \<rparr> of
        None \<Rightarrow> None
      | Some (Inl p) \<Rightarrow> Some (Inl p)
      | Some (Inr st) \<Rightarrow>
          (case chan_close (eventsChan st) of
             Inl p \<Rightarrow> Some (Inl p)
           | Inr ch' \<Rightarrow>
               Some (Inr \<lparr> channel = ch', respBodyClosed = True, logs = logged st \<rparr>)))"

section \<open>When the stream reader stops, in the specification's terms\<close>

text \<open>
  The specification lists the conditions on which the reader terminates: end of
  stream, a \<^verbatim>\<open>close\<close> frame, a read error, cancellation of the caller's context.
  \<open>stopCondition env i\<close> says which of them, if any, holds at iteration \<open>i\<close>; it is
  written from that list, independently of \<open>loopBody\<close>, and is compared with the loop
  below.  A frame is deliverable when it carries a payload that decodes to a status or
  an artifact event; cancellation can also be noticed while such an event is being sent.
\<close>

definition deliverable :: "sse_env \<Rightarrow> nat \<Rightarrow> bool" where
  "deliverable env i =
     (case ReadEvent env i of
        (eventBytes, eventType, Some err) \<Rightarrow> False
      | (eventBytes, eventType, None) \<Rightarrow>
          eventBytes \<noteq> [] \<and> eventType \<noteq> EventClose
          \<and> (if eventType = EventTaskStatusUpdate
               then \<not> isl (Unmarshal_TaskStatusUpdateEvent env eventBytes)
               else eventType = EventTaskArtifactUpdate
                    \<and> \<not> isl (Unmarshal_TaskArtifactUpdateEvent env eventBytes)))"

datatype stop_condition =
    ContextDone
  | EndOfStream
  | ReadFailed error
  | CloseFrame bytes
  | ContextDoneWhileSending

definition stopCondition :: "sse_env \<Rightarrow> nat \<Rightarrow> stop_condition option" where
  "stopCondition env i =
     (if ctxDone env i then Some ContextDone
      else
        (case ReadEvent env i of
           (eventBytes, eventType, Some err) \<Rightarrow>
             Some (if err = io_EOF then EndOfStream else ReadFailed err)
         | (eventBytes, eventType, None) \<Rightarrow>
             if eventBytes \<noteq> [] \<and> eventType = EventClose then Some (CloseFrame eventBytes)
             else if deliverable env i \<and> sendSelect env i = SelectCtxDone
             then Some ContextDoneWhileSending
             else None))"

text \<open>The send of iteration \<open>i\<close> never completes and the context is never cancelled.\<close>

definition waitsForever :: "sse_env \<Rightarrow> nat \<Rightarrow> bool" where
  "waitsForever env i =
     (\<not> ctxDone env i \<and> deliverable env i \<and> sendSelect env i = SelectNever)"

text \<open>
  What the reader logs last for each condition: end of stream is reported with
  \<^verbatim>\<open>Debugf\<close>, as a clean end; any other read error with \<^verbatim>\<open>Errorf\<close>.
\<close>

fun report :: "string \<Rightarrow> stop_condition \<Rightarrow> sse_log" where
  "report taskID ContextDone = Debugf_ContextCanceled taskID"
| "report taskID EndOfStream = Debugf_StreamEndedEOF taskID"
| "report taskID (ReadFailed err) = Errorf_ErrorReadingStream taskID err"
| "report taskID (CloseFrame eventBytes) = Debugf_ReceivedClose taskID eventBytes"
| "report taskID ContextDoneWhileSending = Debugf_ContextCanceledWhileSending taskID"

section \<open>Concrete inputs\<close>

text \<open>A store holding one task \<^verbatim>\<open>t1\<close> in a given state, and a request for it.\<close>

definition exampleTask :: "TaskState \<Rightarrow> Task" where
  "exampleTask s =
     \<lparr> Task.ID = ''t1'', Task.SessionID = None,
       Task.Status = \<lparr>State = s, Timestamp = ''2025-01-01T00:00:00Z''\<rparr>,
       History = [], Artifacts = [] \<rparr>"

definition exampleStore :: "TaskState \<Rightarrow> mockTaskManager" where
  "exampleStore s =
     newMockTaskManager\<lparr>heap := (heap newMockTaskManager)(0 := exampleTask s),
                        nextPtr := 1, tasks := [''t1'' \<mapsto> 0]\<rparr>"

definition exampleNow :: string where
  "exampleNow = ''2025-06-01T12:00:00Z''"

definition exampleParams :: SendTaskParams where
  "exampleParams =
     \<lparr> SendTaskParams.ID = ''t1'', SendTaskParams.SessionID = None,
       SendTaskParams.Message = \<lparr>Role = RoleUser, Message.Parts = [TextPart ''hi'']\<rparr> \<rparr>"

text \<open>
  A server whose answer to every request is the given response; the body
  \<^verbatim>\<open>error-envelope\<close> decodes to a JSON-RPC envelope carrying a task-not-found error.
\<close>

definition exampleClient :: A2AClient where
  "exampleClient = \<lparr> baseURL = ''http://localhost:8080/'', userAgent = ''a2a-go-client/0.1'' \<rparr>"

definition exampleExternals :: "HTTPResponse \<Rightarrow> externals" where
  "exampleExternals resp =
     \<lparr> Marshal_SendTaskParams = (\<lambda>_. Inr ''params''),
       Marshal_TaskQueryParams = (\<lambda>_. Inr ''params''),
       Marshal_TaskIDParams = (\<lambda>_. Inr ''params''),
       Marshal_Request = (\<lambda>_. Inr ''request''),
       NewRequestWithContext =
         (\<lambda>method url body. Inr \<lparr> URL = url, HTTPRequest.Header = Map.empty,
                                    HTTPRequest.Body = body \<rparr>),
       httpClient_Do = (\<lambda>_. Inr resp),
       Unmarshal_RawResponse =
         (\<lambda>b. if b = ''error-envelope''
               then Inr \<lparr> Error = Some (ErrTaskNotFound ''t1''), Result = [] \<rparr>
               else Inl (ExternalError ''unexpected end of JSON input'')),
       Unmarshal_Task = (\<lambda>_. Inl (ExternalError ''unexpected end of JSON input'')) \<rparr>"

definition exampleResponse :: "int \<Rightarrow> string \<Rightarrow> bytes \<Rightarrow> HTTPResponse" where
  "exampleResponse status contentType body =
     \<lparr> StatusCode = status, HTTPResponse.Header = [''Content-Type'' \<mapsto> contentType],
       HTTPResponse.Body = body, ReadErr = None \<rparr>"

text \<open>
  The same server, except that the body \<^verbatim>\<open>task-envelope\<close> decodes to an envelope
  without error whose result \<^verbatim>\<open>task-json\<close> decodes to the submitted task \<^verbatim>\<open>t1\<close>.
\<close>

definition exampleTaskServer :: "HTTPResponse \<Rightarrow> externals" where
  "exampleTaskServer resp =
     (exampleExternals resp)
       \<lparr> Unmarshal_RawResponse :=
           (\<lambda>b. if b = ''task-envelope'' then Inr \<lparr> Error = None, Result = ''task-json'' \<rparr>
                 else Unmarshal_RawResponse (exampleExternals resp) b),
         Unmarshal_Task :=
           (\<lambda>b. if b = ''task-json'' then Inr (exampleTask TaskStateSubmitted)
                 else Unmarshal_Task (exampleExternals resp) b) \<rparr>"

text \<open>
  An event stream given by its frames (payload and event type), followed by end of
  stream; the context is never cancelled, every send goes through, and the only
  payload that decodes is \<^verbatim>\<open>status-json\<close>.
\<close>

definition exampleStatusEvent :: TaskStatusUpdateEvent where
  "exampleStatusEvent =
     \<lparr> TaskStatusUpdateEvent.ID = ''t1'',
       TaskStatusUpdateEvent.Status =
         \<lparr>State = TaskStateWorking, Timestamp = ''2025-06-01T12:00:00Z''\<rparr>,
       Final = False \<rparr>"

definition exampleStream :: "(bytes \<times> string) list \<Rightarrow> sse_env" where
  "exampleStream frames =
     \<lparr> ctxDone = (\<lambda>_. False),
       ReadEvent = (\<lambda>i. if i < length frames then (fst (frames ! i), snd (frames ! i), None)
                        else ([], [], Some io_EOF)),
       sendSelect = (\<lambda>_. SelectSend),
       Unmarshal_TaskStatusUpdateEvent =
         (\<lambda>b. if b = ''status-json'' then Inr exampleStatusEvent
               else Inl (ExternalError ''invalid character'')),
       Unmarshal_TaskArtifactUpdateEvent = (\<lambda>b. Inl (ExternalError ''invalid character'')) \<rparr>"

section \<open>Properties of the error constructors\<close>

text \<open>
  Claim C9.  Whatever the task ID (and state) passed in, \<^verbatim>\<open>ErrTaskNotFound\<close> builds an
  error with code -32001, \<^verbatim>\<open>ErrTaskFinalState\<close> one with code -32002 and
  \<^verbatim>\<open>ErrPushNotificationNotConfigured\<close> one with code -32003.
\<close>

theorem error_constructor_codes:
  "Code (ErrTaskNotFound taskID) = - 32001
   \<and> Code (ErrTaskFinalState taskID state) = - 32002
   \<and> Code (ErrPushNotificationNotConfigured taskID) = - 32003"
  by (simp add: ErrTaskNotFound_def ErrTaskFinalState_def
      ErrPushNotificationNotConfigured_def ErrCodeTaskNotFound_def ErrCodeTaskFinal_def
      ErrCodePushNotificationNotConfigured_def)

section \<open>Properties of the task manager\<close>

text \<open>
  Claim C2, as amended.  On a manager with no configured cancel error and no configured
  cancel response: cancelling an ID that is not in the store returns the task-not-found
  error and leaves the manager as it was; cancelling an ID that is in the store returns
  that task and sets its state to \<^verbatim>\<open>canceled\<close> and its timestamp to the current time,
  whatever state the task was in, final states included.  Nothing else changes.
\<close>

theorem OnCancelTask_not_found_or_canceled:
  assumes "CancelError m = None" and "CancelResponse m = None"
  shows "(tasks m (TaskIDParams.ID params) = None \<longrightarrow>
            OnCancelTask m now params
              = (m, Inl (RPCError (ErrTaskNotFound (TaskIDParams.ID params)))))
       \<and> (\<forall>task. tasks m (TaskIDParams.ID params) = Some task \<longrightarrow>
            OnCancelTask m now params
              = (m\<lparr>heap := (heap m)(task := (heap m task)
                    \<lparr>Task.Status := (Task.Status (heap m task))
                       \<lparr>State := TaskStateCanceled, Timestamp := now\<rparr>\<rparr>)\<rparr>,
                 Inr task))"
  using assms by (simp add: OnCancelTask_def Let_def)

text \<open>
  The amended claim at work: the submitted task \<^verbatim>\<open>t1\<close> becomes canceled with the new
  timestamp, and an unknown ID is reported as not found.
\<close>

theorem OnCancelTask_not_found_or_canceled_witness:
  "OnCancelTask (exampleStore TaskStateSubmitted) exampleNow \<lparr>TaskIDParams.ID = ''t1''\<rparr>
     = ((exampleStore TaskStateSubmitted)\<lparr>heap := (heap (exampleStore TaskStateSubmitted))(0 :=
           (exampleTask TaskStateSubmitted)
             \<lparr>Task.Status := \<lparr>State = TaskStateCanceled, Timestamp = exampleNow\<rparr>\<rparr>)\<rparr>,
        Inr 0)
   \<and> OnCancelTask (exampleStore TaskStateSubmitted) exampleNow \<lparr>TaskIDParams.ID = ''zz''\<rparr>
     = (exampleStore TaskStateSubmitted, Inl (RPCError (ErrTaskNotFound ''zz'')))"
  using OnCancelTask_not_found_or_canceled
          [of "exampleStore TaskStateSubmitted" "\<lparr>TaskIDParams.ID = ''t1''\<rparr>" exampleNow]
        OnCancelTask_not_found_or_canceled
          [of "exampleStore TaskStateSubmitted" "\<lparr>TaskIDParams.ID = ''zz''\<rparr>" exampleNow]
  by (simp add: exampleStore_def exampleTask_def newMockTaskManager_def)

text \<open>
  Claim C2 as stated fails: the stored task \<^verbatim>\<open>t1\<close> is completed, a final state, yet
  cancelling it returns the task rather than an error, and the stored task is now
  canceled with a new timestamp.
\<close>

theorem OnCancelTask_final_state_counterexample:
  "tasks (exampleStore TaskStateCompleted) ''t1'' = Some 0
   \<and> isFinalState (State (Task.Status (heap (exampleStore TaskStateCompleted) 0)))
   \<and> snd (OnCancelTask (exampleStore TaskStateCompleted) exampleNow \<lparr>TaskIDParams.ID = ''t1''\<rparr>)
       = Inr 0
   \<and> snd (OnCancelTask (exampleStore TaskStateCompleted) exampleNow \<lparr>TaskIDParams.ID = ''t1''\<rparr>)
       \<noteq> Inl (RPCError (ErrTaskFinalState ''t1'' TaskStateCompleted))
   \<and> Task.Status (heap (fst (OnCancelTask (exampleStore TaskStateCompleted) exampleNow
         \<lparr>TaskIDParams.ID = ''t1''\<rparr>)) 0)
       = \<lparr>State = TaskStateCanceled, Timestamp = exampleNow\<rparr>
   \<and> heap (fst (OnCancelTask (exampleStore TaskStateCompleted) exampleNow
         \<lparr>TaskIDParams.ID = ''t1''\<rparr>)) 0
       \<noteq> heap (exampleStore TaskStateCompleted) 0"
  by (simp add: OnCancelTask_def exampleStore_def exampleTask_def newMockTaskManager_def Let_def)

text \<open>
  Claim C4, as amended.  On a manager with no configured send error and no configured
  send response, a send whose ID is not empty and whose message has at least one part
  always creates a task: a new task object for that ID and session, in state
  \<^verbatim>\<open>submitted\<close> with the current timestamp, is allocated, stored under the ID (in
  place of whatever the ID referred to before) and returned.  No other task object is
  touched, so a task already stored under the ID keeps its history as it was.
\<close>

theorem OnSendTask_always_creates:
  assumes "SendError m = None" and "SendResponse m = None"
    and "SendTaskParams.ID params \<noteq> []"
    and "Message.Parts (SendTaskParams.Message params) \<noteq> []"
  shows "OnSendTask m now params =
           (m\<lparr>heap := (heap m)(nextPtr m :=
                  NewTask (SendTaskParams.ID params) (SendTaskParams.SessionID params) now),
              nextPtr := Suc (nextPtr m),
              tasks := (tasks m)(SendTaskParams.ID params \<mapsto> nextPtr m)\<rparr>,
            Inr (nextPtr m))"
  using assms by (simp add: OnSendTask_def Let_def NewTask_def)

text \<open>
  The amended claim at work on a store whose task \<^verbatim>\<open>t1\<close> is working: the send returns
  the new object at address 1, the object at address 0 is as before.
\<close>

theorem OnSendTask_always_creates_witness:
  "snd (OnSendTask (exampleStore TaskStateWorking) exampleNow exampleParams) = Inr 1
   \<and> heap (fst (OnSendTask (exampleStore TaskStateWorking) exampleNow exampleParams)) 0
       = exampleTask TaskStateWorking
   \<and> heap (fst (OnSendTask (exampleStore TaskStateWorking) exampleNow exampleParams)) 1
       = NewTask ''t1'' None exampleNow"
  using OnSendTask_always_creates [of "exampleStore TaskStateWorking" exampleParams exampleNow]
  by (simp add: exampleStore_def exampleParams_def newMockTaskManager_def)

text \<open>
  Claim C4 as stated fails: \<^verbatim>\<open>t1\<close> is stored at address 0 in the non-final state
  \<^verbatim>\<open>working\<close>; a send for \<^verbatim>\<open>t1\<close> returns another task object, the message is in
  the history of neither object, and the store now maps \<^verbatim>\<open>t1\<close> to the new object,
  whose state is \<^verbatim>\<open>submitted\<close>.
\<close>

theorem OnSendTask_resume_counterexample:
  "tasks (exampleStore TaskStateWorking) (SendTaskParams.ID exampleParams) = Some 0
   \<and> \<not> isFinalState (State (Task.Status (heap (exampleStore TaskStateWorking) 0)))
   \<and> snd (OnSendTask (exampleStore TaskStateWorking) exampleNow exampleParams) \<noteq> Inr 0
   \<and> History (heap (fst (OnSendTask (exampleStore TaskStateWorking) exampleNow exampleParams)) 0)
       \<noteq> History (heap (exampleStore TaskStateWorking) 0) @ [SendTaskParams.Message exampleParams]
   \<and> snd (OnSendTask (exampleStore TaskStateWorking) exampleNow exampleParams) = Inr 1
   \<and> History (heap (fst (OnSendTask (exampleStore TaskStateWorking) exampleNow exampleParams)) 1)
       = []
   \<and> State (Task.Status
        (heap (fst (OnSendTask (exampleStore TaskStateWorking) exampleNow exampleParams)) 1))
       = TaskStateSubmitted
   \<and> tasks (fst (OnSendTask (exampleStore TaskStateWorking) exampleNow exampleParams)) ''t1''
       = Some 1"
  by (simp add: OnSendTask_def exampleStore_def exampleTask_def exampleParams_def
      newMockTaskManager_def NewTask_def Let_def)

lemma sendConfigured_closes:
  "\<not> closed ch \<Longrightarrow> \<exists>ch'. sendConfigured IsFinal sel i evs ch = Inr ch' \<and> closed ch'"
proof (induction evs arbitrary: i ch)
  case Nil
  then show ?case by (simp add: chan_close_def)
next
  case (Cons e evs)
  have open': "\<not> closed (ch\<lparr>sent := sent ch @ [e]\<rparr>)" using Cons.prems by simp
  show ?case
    using Cons.prems Cons.IH [OF open', of "Suc i"]
    by (simp add: chan_close_def chan_send_def)
qed

text \<open>
  Claim C5, as amended.  On a manager with no configured subscribe error: resubscribing
  to an ID that is not in the store fails with the task-not-found error, and no channel
  is returned; resubscribing to an ID that is in the store returns a channel that the
  goroutine closes, without a panic; and when no events are configured and the context
  is not cancelled, that channel carries exactly one event before it is closed: a status
  update for the ID with state \<^verbatim>\<open>completed\<close>, the current timestamp and
  \<^verbatim>\<open>Final\<close> set, whatever the state of the stored task is.
\<close>

theorem OnResubscribe_not_found_or_completed_event:
  assumes "SubscribeError m = None"
  shows "(tasks m (TaskIDParams.ID params) = None \<longrightarrow>
            OnResubscribe m IsFinal ctxSelected now params
              = Inl (RPCError (ErrTaskNotFound (TaskIDParams.ID params))))
       \<and> (tasks m (TaskIDParams.ID params) \<noteq> None \<longrightarrow>
            (\<exists>ch. OnResubscribe m IsFinal ctxSelected now params = Inr (Inr ch) \<and> closed ch))
       \<and> (tasks m (TaskIDParams.ID params) \<noteq> None \<and> SubscribeEvents m = []
            \<and> \<not> ctxSelected 0 \<longrightarrow>
            OnResubscribe m IsFinal ctxSelected now params
              = Inr (Inr \<lparr> sent = [StatusUpdate
                     \<lparr> TaskStatusUpdateEvent.ID = TaskIDParams.ID params,
                       TaskStatusUpdateEvent.Status =
                         \<lparr>State = TaskStateCompleted, Timestamp = now\<rparr>,
                       Final = True \<rparr>], closed = True \<rparr>))"
proof (intro conjI impI)
  assume "tasks m (TaskIDParams.ID params) = None"
  with assms show "OnResubscribe m IsFinal ctxSelected now params
              = Inl (RPCError (ErrTaskNotFound (TaskIDParams.ID params)))"
    by (simp add: OnResubscribe_def)
next
  assume ex: "tasks m (TaskIDParams.ID params) \<noteq> None"
  have "\<not> closed make_chan" by (simp add: make_chan_def)
  from sendConfigured_closes [OF this, of IsFinal ctxSelected 0 "SubscribeEvents m"]
  obtain ch' where c: "sendConfigured IsFinal ctxSelected 0 (SubscribeEvents m) make_chan = Inr ch'"
    "closed ch'"
    by blast
  show "\<exists>ch. OnResubscribe m IsFinal ctxSelected now params = Inr (Inr ch) \<and> closed ch"
  proof (cases "SubscribeEvents m = []")
    case True
    with assms ex show ?thesis
      by (auto simp: OnResubscribe_def sendDefaultCompleted_def make_chan_def chan_close_def
          chan_send_def Let_def)
  next
    case False
    with assms ex c show ?thesis
      by (auto simp: OnResubscribe_def Let_def)
  qed
next
  assume "tasks m (TaskIDParams.ID params) \<noteq> None \<and> SubscribeEvents m = [] \<and> \<not> ctxSelected 0"
  with assms show "OnResubscribe m IsFinal ctxSelected now params
              = Inr (Inr \<lparr> sent = [StatusUpdate
                     \<lparr> TaskStatusUpdateEvent.ID = TaskIDParams.ID params,
                       TaskStatusUpdateEvent.Status =
                         \<lparr>State = TaskStateCompleted, Timestamp = now\<rparr>,
                       Final = True \<rparr>], closed = True \<rparr>)"
    by (auto simp: OnResubscribe_def sendDefaultCompleted_def make_chan_def chan_close_def
          chan_send_def Let_def)
qed

text \<open>
  The amended claim at work: resubscribing to the failed task \<^verbatim>\<open>t1\<close> yields one
  completed event and a closed channel; resubscribing to an unknown ID fails.
\<close>

theorem OnResubscribe_not_found_or_completed_event_witness:
  "OnResubscribe (exampleStore TaskStateFailed) (\<lambda>_. False) (\<lambda>_. False) exampleNow
       \<lparr>TaskIDParams.ID = ''t1''\<rparr>
     = Inr (Inr \<lparr> sent = [StatusUpdate
                     \<lparr> TaskStatusUpdateEvent.ID = ''t1'',
                       TaskStatusUpdateEvent.Status =
                         \<lparr>State = TaskStateCompleted, Timestamp = exampleNow\<rparr>,
                       Final = True \<rparr>], closed = True \<rparr>)
   \<and> OnResubscribe (exampleStore TaskStateFailed) (\<lambda>_. False) (\<lambda>_. False) exampleNow
       \<lparr>TaskIDParams.ID = ''zz''\<rparr>
     = Inl (RPCError (ErrTaskNotFound ''zz''))"
  using OnResubscribe_not_found_or_completed_event
          [of "exampleStore TaskStateFailed" "\<lparr>TaskIDParams.ID = ''t1''\<rparr>" "\<lambda>_. False" "\<lambda>_. False"
              exampleNow]
        OnResubscribe_not_found_or_completed_event
          [of "exampleStore TaskStateFailed" "\<lparr>TaskIDParams.ID = ''zz''\<rparr>" "\<lambda>_. False" "\<lambda>_. False"
              exampleNow]
  by (simp add: exampleStore_def newMockTaskManager_def)

text \<open>
  Claim C5 as stated fails: the stored task \<^verbatim>\<open>t1\<close> is in the final state
  \<^verbatim>\<open>canceled\<close>, but the one event delivered on resubscription reports the state
  \<^verbatim>\<open>completed\<close>, not the task's state.
\<close>

theorem OnResubscribe_final_state_counterexample:
  "tasks (exampleStore TaskStateCanceled) ''t1'' = Some 0
   \<and> State (Task.Status (heap (exampleStore TaskStateCanceled) 0)) = TaskStateCanceled
   \<and> isFinalState TaskStateCanceled
   \<and> OnResubscribe (exampleStore TaskStateCanceled) (\<lambda>_. False) (\<lambda>_. False) exampleNow
        \<lparr>TaskIDParams.ID = ''t1''\<rparr>
      = Inr (Inr \<lparr> sent = [StatusUpdate
                     \<lparr> TaskStatusUpdateEvent.ID = ''t1'',
                       TaskStatusUpdateEvent.Status =
                         \<lparr>State = TaskStateCompleted, Timestamp = exampleNow\<rparr>,
                       Final = True \<rparr>], closed = True \<rparr>)
   \<and> TaskStateCompleted \<noteq> TaskStateCanceled"
  by (simp add: OnResubscribe_def sendDefaultCompleted_def make_chan_def chan_close_def
          chan_send_def Let_def exampleStore_def exampleTask_def newMockTaskManager_def)

section \<open>Properties of the synchronous client operations\<close>

lemma doRequest_response_or_error:
  "(\<exists>response. doRequest c x request = (Some response, None))
   \<or> (\<exists>err. doRequest c x request = (None, Some err))"
  by (simp add: doRequest_def Let_def split: sum.splits)

lemma doRequestAndDecodeTask_task_or_error:
  "(\<exists>task. doRequestAndDecodeTask c x request = Inr (Some task, None))
   \<or> (\<exists>err. doRequestAndDecodeTask c x request = Inr (None, Some err))"
  using doRequest_response_or_error [of c x request]
  by (auto simp: doRequestAndDecodeTask_def split: sum.splits option.splits if_splits)

lemma SendTasks_task_or_error:
  "(\<exists>task. SendTasks c x params = Inr (Some task, None))
   \<or> (\<exists>err. SendTasks c x params = Inr (None, Some err))"
proof (cases "Marshal_SendTaskParams x params")
  case (Inl err)
  then show ?thesis by (simp add: SendTasks_def)
next
  case (Inr paramsBytes)
  from doRequestAndDecodeTask_task_or_error
    [of c x "(NewRequest MethodTasksSend (SendTaskParams.ID params))\<lparr>Params := paramsBytes\<rparr>"]
  show ?thesis using Inr by (auto simp: SendTasks_def)
qed

lemma GetTasks_task_or_error:
  "(\<exists>task. GetTasks c x params = Inr (Some task, None))
   \<or> (\<exists>err. GetTasks c x params = Inr (None, Some err))"
proof (cases "Marshal_TaskQueryParams x params")
  case (Inl err)
  then show ?thesis by (simp add: GetTasks_def)
next
  case (Inr paramsBytes)
  from doRequestAndDecodeTask_task_or_error
    [of c x "(NewRequest MethodTasksGet (TaskQueryParams.ID params))\<lparr>Params := paramsBytes\<rparr>"]
  show ?thesis using Inr by (auto simp: GetTasks_def)
qed

lemma CancelTasks_task_or_error:
  "(\<exists>task. CancelTasks c x params = Inr (Some task, None))
   \<or> (\<exists>err. CancelTasks c x params = Inr (None, Some err))"
proof (cases "Marshal_TaskIDParams x params")
  case (Inl err)
  then show ?thesis by (simp add: CancelTasks_def)
next
  case (Inr paramsBytes)
  from doRequestAndDecodeTask_task_or_error
    [of c x "(NewRequest MethodTasksCancel (TaskIDParams.ID params))\<lparr>Params := paramsBytes\<rparr>"]
  show ?thesis using Inr by (auto simp: CancelTasks_def)
qed

lemma doRequestAndDecodeTask_rpc_error:
  "doRequest c x request = (Some fullResponse, None) \<Longrightarrow> Error fullResponse = Some e
   \<Longrightarrow> doRequestAndDecodeTask c x request = Inr (None, Some (RPCError e))"
  by (simp add: doRequestAndDecodeTask_def)

lemma sync_operations_shape:
  "((\<exists>task. SendTasks c x sendParams = Inr (Some task, None))
      \<or> (\<exists>err. SendTasks c x sendParams = Inr (None, Some err)))
 \<and> ((\<exists>task. GetTasks c x queryParams = Inr (Some task, None))
      \<or> (\<exists>err. GetTasks c x queryParams = Inr (None, Some err)))
 \<and> ((\<exists>task. CancelTasks c x idParams = Inr (Some task, None))
      \<or> (\<exists>err. CancelTasks c x idParams = Inr (None, Some err)))
 \<and> ((\<exists>task. doRequestAndDecodeTask c x request = Inr (Some task, None))
      \<or> (\<exists>err. doRequestAndDecodeTask c x request = Inr (None, Some err)))
 \<and> (\<forall>fullResponse e.
       doRequest c x request = (Some fullResponse, None) \<and> Error fullResponse = Some e
       \<longrightarrow> doRequestAndDecodeTask c x request = Inr (None, Some (RPCError e)))
 \<and> (\<forall>paramsBytes fullResponse e.
       Marshal_SendTaskParams x sendParams = Inr paramsBytes
       \<and> doRequest c x ((NewRequest MethodTasksSend (SendTaskParams.ID sendParams))
                          \<lparr>Params := paramsBytes\<rparr>) = (Some fullResponse, None)
       \<and> Error fullResponse = Some e
       \<longrightarrow> SendTasks c x sendParams
             = Inr (None, Some (Errorf ''a2aClient.SendTasks: %w'' [ArgErr (RPCError e)])))
 \<and> (\<forall>paramsBytes fullResponse e.
       Marshal_TaskQueryParams x queryParams = Inr paramsBytes
       \<and> doRequest c x ((NewRequest MethodTasksGet (TaskQueryParams.ID queryParams))
                          \<lparr>Params := paramsBytes\<rparr>) = (Some fullResponse, None)
       \<and> Error fullResponse = Some e
       \<longrightarrow> GetTasks c x queryParams
             = Inr (None, Some (Errorf ''a2aClient.GetTasks: %w'' [ArgErr (RPCError e)])))
 \<and> (\<forall>paramsBytes fullResponse e.
       Marshal_TaskIDParams x idParams = Inr paramsBytes
       \<and> doRequest c x ((NewRequest MethodTasksCancel (TaskIDParams.ID idParams))
                          \<lparr>Params := paramsBytes\<rparr>) = (Some fullResponse, None)
       \<and> Error fullResponse = Some e
       \<longrightarrow> CancelTasks c x idParams
             = Inr (None, Some (Errorf ''a2aClient.CancelTasks: %w'' [ArgErr (RPCError e)])))"
proof (intro conjI allI impI)
  show "(\<exists>task. SendTasks c x sendParams = Inr (Some task, None))
      \<or> (\<exists>err. SendTasks c x sendParams = Inr (None, Some err))"
    by (rule SendTasks_task_or_error)
  show "(\<exists>task. GetTasks c x queryParams = Inr (Some task, None))
      \<or> (\<exists>err. GetTasks c x queryParams = Inr (None, Some err))"
    by (rule GetTasks_task_or_error)
  show "(\<exists>task. CancelTasks c x idParams = Inr (Some task, None))
      \<or> (\<exists>err. CancelTasks c x idParams = Inr (None, Some err))"
    by (rule CancelTasks_task_or_error)
  show "(\<exists>task. doRequestAndDecodeTask c x request = Inr (Some task, None))
      \<or> (\<exists>err. doRequestAndDecodeTask c x request = Inr (None, Some err))"
    by (rule doRequestAndDecodeTask_task_or_error)
next
  fix fullResponse e
  assume "doRequest c x request = (Some fullResponse, None) \<and> Error fullResponse = Some e"
  then show "doRequestAndDecodeTask c x request = Inr (None, Some (RPCError e))"
    by (simp add: doRequestAndDecodeTask_rpc_error)
next
  fix paramsBytes fullResponse e
  assume "Marshal_SendTaskParams x sendParams = Inr paramsBytes
       \<and> doRequest c x ((NewRequest MethodTasksSend (SendTaskParams.ID sendParams))
                          \<lparr>Params := paramsBytes\<rparr>) = (Some fullResponse, None)
       \<and> Error fullResponse = Some e"
  then show "SendTasks c x sendParams
             = Inr (None, Some (Errorf ''a2aClient.SendTasks: %w'' [ArgErr (RPCError e)]))"
    by (simp add: SendTasks_def doRequestAndDecodeTask_rpc_error)
next
  fix paramsBytes fullResponse e
  assume "Marshal_TaskQueryParams x queryParams = Inr paramsBytes
       \<and> doRequest c x ((NewRequest MethodTasksGet (TaskQueryParams.ID queryParams))
                          \<lparr>Params := paramsBytes\<rparr>) = (Some fullResponse, None)
       \<and> Error fullResponse = Some e"
  then show "GetTasks c x queryParams
             = Inr (None, Some (Errorf ''a2aClient.GetTasks: %w'' [ArgErr (RPCError e)]))"
    by (simp add: GetTasks_def doRequestAndDecodeTask_rpc_error)
next
  fix paramsBytes fullResponse e
  assume "Marshal_TaskIDParams x idParams = Inr paramsBytes
       \<and> doRequest c x ((NewRequest MethodTasksCancel (TaskIDParams.ID idParams))
                          \<lparr>Params := paramsBytes\<rparr>) = (Some fullResponse, None)
       \<and> Error fullResponse = Some e"
  then show "CancelTasks c x idParams
             = Inr (None, Some (Errorf ''a2aClient.CancelTasks: %w'' [ArgErr (RPCError e)]))"
    by (simp add: CancelTasks_def doRequestAndDecodeTask_rpc_error)
qed

text \<open>What \<^verbatim>\<open>doRequest\<close> returns, step by step.\<close>

lemma doRequest_success_iff:
  "\<forall>response.
     (doRequest c x request = (Some response, None)) =
     (\<exists>reqBody req0 resp.
        Marshal_Request x request = Inr reqBody
        \<and> NewRequestWithContext x MethodPost (baseURL c) reqBody = Inr req0
        \<and> httpClient_Do x
             (if userAgent c \<noteq> []
              then Header_Set (Header_Set (Header_Set req0 ''Content-Type''
                     ''application/json; charset=utf-8'') ''Accept'' ''application/json'')
                     ''User-Agent'' (userAgent c)
              else Header_Set (Header_Set req0 ''Content-Type''
                     ''application/json; charset=utf-8'') ''Accept'' ''application/json'')
            = Inr resp
        \<and> 200 \<le> StatusCode resp \<and> StatusCode resp < 300
        \<and> Unmarshal_RawResponse x (HTTPResponse.Body resp) = Inr response)"
  by (auto simp: doRequest_def Let_def split: sum.splits if_splits)

lemma doRequest_http_status_error:
  "\<forall>reqBody req0 resp.
     Marshal_Request x request = Inr reqBody
     \<and> NewRequestWithContext x MethodPost (baseURL c) reqBody = Inr req0
     \<and> httpClient_Do x
          (if userAgent c \<noteq> []
           then Header_Set (Header_Set (Header_Set req0 ''Content-Type''
                  ''application/json; charset=utf-8'') ''Accept'' ''application/json'')
                  ''User-Agent'' (userAgent c)
           else Header_Set (Header_Set req0 ''Content-Type''
                  ''application/json; charset=utf-8'') ''Accept'' ''application/json'')
         = Inr resp
     \<and> (StatusCode resp < 200 \<or> 300 \<le> StatusCode resp)
     \<longrightarrow> doRequest c x request
           = (None, Some (Errorf ''a2aClient.doRequest: unexpected http status %d: %s''
                            [ArgInt (StatusCode resp), ArgStr (HTTPResponse.Body resp)]))"
  by (auto simp: doRequest_def Let_def)

text \<open>What \<^verbatim>\<open>doRequestAndDecodeTask\<close> returns in each of its four cases.\<close>

lemma doRequestAndDecodeTask_request_failed:
  "\<forall>r err. doRequest c x request = (r, Some err)
     \<longrightarrow> doRequestAndDecodeTask c x request = Inr (None, Some err)"
  by (simp add: doRequestAndDecodeTask_def split: option.splits)

lemma doRequestAndDecodeTask_missing_result:
  "\<forall>fullResponse.
     doRequest c x request = (Some fullResponse, None) \<and> Error fullResponse = None
     \<and> Result fullResponse = []
     \<longrightarrow> doRequestAndDecodeTask c x request
           = Inr (None, Some (Errorf ''rpc response missing required 'result' field for id %v''
                                [ArgStr (Request.ID request)]))"
  by (simp add: doRequestAndDecodeTask_def)

lemma doRequestAndDecodeTask_decode_failed:
  "\<forall>fullResponse err.
     doRequest c x request = (Some fullResponse, None) \<and> Error fullResponse = None
     \<and> Result fullResponse \<noteq> [] \<and> Unmarshal_Task x (Result fullResponse) = Inl err
     \<longrightarrow> doRequestAndDecodeTask c x request
           = Inr (None, Some (Errorf ''failed to unmarshal rpc result: %w. Raw result: %s''
                                [ArgErr err, ArgStr (Result fullResponse)]))"
  by (simp add: doRequestAndDecodeTask_def)

lemma doRequestAndDecodeTask_task_iff:
  "\<forall>task.
     (doRequestAndDecodeTask c x request = Inr (Some task, None)) =
     (\<exists>fullResponse.
        doRequest c x request = (Some fullResponse, None) \<and> Error fullResponse = None
        \<and> Result fullResponse \<noteq> [] \<and> Unmarshal_Task x (Result fullResponse) = Inr task)"
  using doRequest_response_or_error [of c x request]
  by (auto simp: doRequestAndDecodeTask_def split: sum.splits option.splits if_splits)

text \<open>What the three public operations make of that.\<close>

lemma SendTasks_results:
  "(\<forall>err. Marshal_SendTaskParams x params = Inl err
      \<longrightarrow> SendTasks c x params
            = Inr (None, Some (Errorf ''a2aClient.SendTasks: failed to marshal params: %w''
                                 [ArgErr err])))
 \<and> (\<forall>paramsBytes err.
       Marshal_SendTaskParams x params = Inr paramsBytes
       \<and> doRequestAndDecodeTask c x ((NewRequest MethodTasksSend (SendTaskParams.ID params))
                                       \<lparr>Params := paramsBytes\<rparr>) = Inr (None, Some err)
      \<longrightarrow> SendTasks c x params
            = Inr (None, Some (Errorf ''a2aClient.SendTasks: %w'' [ArgErr err])))
 \<and> (\<forall>task.
       (SendTasks c x params = Inr (Some task, None)) =
       (\<exists>paramsBytes.
          Marshal_SendTaskParams x params = Inr paramsBytes
          \<and> doRequestAndDecodeTask c x ((NewRequest MethodTasksSend (SendTaskParams.ID params))
                                          \<lparr>Params := paramsBytes\<rparr>) = Inr (Some task, None)))"
proof (cases "Marshal_SendTaskParams x params")
  case (Inl err)
  then show ?thesis by (simp add: SendTasks_def)
next
  case (Inr paramsBytes)
  from doRequestAndDecodeTask_task_or_error
    [of c x "(NewRequest MethodTasksSend (SendTaskParams.ID params))\<lparr>Params := paramsBytes\<rparr>"]
  show ?thesis using Inr by (auto simp: SendTasks_def)
qed

lemma GetTasks_results:
  "(\<forall>err. Marshal_TaskQueryParams x params = Inl err
      \<longrightarrow> GetTasks c x params
            = Inr (None, Some (Errorf ''a2aClient.GetTasks: failed to marshal params: %w''
                                 [ArgErr err])))
 \<and> (\<forall>paramsBytes err.
       Marshal_TaskQueryParams x params = Inr paramsBytes
       \<and> doRequestAndDecodeTask c x ((NewRequest MethodTasksGet (TaskQueryParams.ID params))
                                       \<lparr>Params := paramsBytes\<rparr>) = Inr (None, Some err)
      \<longrightarrow> GetTasks c x params
            = Inr (None, Some (Errorf ''a2aClient.GetTasks: %w'' [ArgErr err])))
 \<and> (\<forall>task.
       (GetTasks c x params = Inr (Some task, None)) =
       (\<exists>paramsBytes.
          Marshal_TaskQueryParams x params = Inr paramsBytes
          \<and> doRequestAndDecodeTask c x ((NewRequest MethodTasksGet (TaskQueryParams.ID params))
                                          \<lparr>Params := paramsBytes\<rparr>) = Inr (Some task, None)))"
proof (cases "Marshal_TaskQueryParams x params")
  case (Inl err)
  then show ?thesis by (simp add: GetTasks_def)
next
  case (Inr paramsBytes)
  from doRequestAndDecodeTask_task_or_error
    [of c x "(NewRequest MethodTasksGet (TaskQueryParams.ID params))\<lparr>Params := paramsBytes\<rparr>"]
  show ?thesis using Inr by (auto simp: GetTasks_def)
qed

lemma CancelTasks_results:
  "(\<forall>err. Marshal_TaskIDParams x params = Inl err
      \<longrightarrow> CancelTasks c x params
            = Inr (None, Some (Errorf ''a2aClient.CancelTasks: failed to marshal params: %w''
                                 [ArgErr err])))
 \<and> (\<forall>paramsBytes err.
       Marshal_TaskIDParams x params = Inr paramsBytes
       \<and> doRequestAndDecodeTask c x ((NewRequest MethodTasksCancel (TaskIDParams.ID params))
                                       \<lparr>Params := paramsBytes\<rparr>) = Inr (None, Some err)
      \<longrightarrow> CancelTasks c x params
            = Inr (None, Some (Errorf ''a2aClient.CancelTasks: %w'' [ArgErr err])))
 \<and> (\<forall>task.
       (CancelTasks c x params = Inr (Some task, None)) =
       (\<exists>paramsBytes.
          Marshal_TaskIDParams x params = Inr paramsBytes
          \<and> doRequestAndDecodeTask c x ((NewRequest MethodTasksCancel (TaskIDParams.ID params))
                                          \<lparr>Params := paramsBytes\<rparr>) = Inr (Some task, None)))"
proof (cases "Marshal_TaskIDParams x params")
  case (Inl err)
  then show ?thesis by (simp add: CancelTasks_def)
next
  case (Inr paramsBytes)
  from doRequestAndDecodeTask_task_or_error
    [of c x "(NewRequest MethodTasksCancel (TaskIDParams.ID params))\<lparr>Params := paramsBytes\<rparr>"]
  show ?thesis using Inr by (auto simp: CancelTasks_def)
qed

text \<open>
  Claim C6.  Whatever the encoders, the HTTP exchange and the decoders do,
  \<^verbatim>\<open>SendTasks\<close>, \<^verbatim>\<open>GetTasks\<close>, \<^verbatim>\<open>CancelTasks\<close> and the
  \<^verbatim>\<open>doRequestAndDecodeTask\<close> they share return without a panic, and return either
  a task and a \<^verbatim>\<open>nil\<close> error or no task and an error, never both and never neither.
  When the decoded envelope has its error field set, \<^verbatim>\<open>doRequestAndDecodeTask\<close>
  returns exactly that JSON-RPC error, and each operation returns it wrapped
  (\<^verbatim>\<open>%w\<close>) under its own prefix.

  The task that is returned is the decoded one.  \<^verbatim>\<open>doRequest\<close> yields a response
  exactly when the request is encoded, built and sent, the status is in the range 200
  to 299 and the body decodes to that response; any other status is an error.
  \<^verbatim>\<open>doRequestAndDecodeTask\<close> returns a task exactly when \<^verbatim>\<open>doRequest\<close> yields a
  response without error field whose non-empty result decodes to that task; it passes
  on the error of \<^verbatim>\<open>doRequest\<close>, and reports a missing result and a result that
  does not decode as errors.  Each public operation returns a task exactly when its
  parameters are encoded and \<^verbatim>\<open>doRequestAndDecodeTask\<close> returns that task; it
  reports an encoding failure, and wraps every error of \<^verbatim>\<open>doRequestAndDecodeTask\<close>
  under its own prefix.
\<close>

theorem sync_operations_task_xor_error:
  "((\<exists>task. SendTasks c x sendParams = Inr (Some task, None))
      \<or> (\<exists>err. SendTasks c x sendParams = Inr (None, Some err)))
 \<and> ((\<exists>task. GetTasks c x queryParams = Inr (Some task, None))
      \<or> (\<exists>err. GetTasks c x queryParams = Inr (None, Some err)))
 \<and> ((\<exists>task. CancelTasks c x idParams = Inr (Some task, None))
      \<or> (\<exists>err. CancelTasks c x idParams = Inr (None, Some err)))
 \<and> ((\<exists>task. doRequestAndDecodeTask c x request = Inr (Some task, None))
      \<or> (\<exists>err. doRequestAndDecodeTask c x request = Inr (None, Some err)))
 \<and> (\<forall>fullResponse e.
       doRequest c x request = (Some fullResponse, None) \<and> Error fullResponse = Some e
       \<longrightarrow> doRequestAndDecodeTask c x request = Inr (None, Some (RPCError e)))
 \<and> (\<forall>paramsBytes fullResponse e.
       Marshal_SendTaskParams x sendParams = Inr paramsBytes
       \<and> doRequest c x ((NewRequest MethodTasksSend (SendTaskParams.ID sendParams))
                          \<lparr>Params := paramsBytes\<rparr>) = (Some fullResponse, None)
       \<and> Error fullResponse = Some e
       \<longrightarrow> SendTasks c x sendParams
             = Inr (None, Some (Errorf ''a2aClient.SendTasks: %w'' [ArgErr (RPCError e)])))
 \<and> (\<forall>paramsBytes fullResponse e.
       Marshal_TaskQueryParams x queryParams = Inr paramsBytes
       \<and> doRequest c x ((NewRequest MethodTasksGet (TaskQueryParams.ID queryParams))
                          \<lparr>Params := paramsBytes\<rparr>) = (Some fullResponse, None)
       \<and> Error fullResponse = Some e
       \<longrightarrow> GetTasks c x queryParams
             = Inr (None, Some (Errorf ''a2aClient.GetTasks: %w'' [ArgErr (RPCError e)])))
 \<and> (\<forall>paramsBytes fullResponse e.
       Marshal_TaskIDParams x idParams = Inr paramsBytes
       \<and> doRequest c x ((NewRequest MethodTasksCancel (TaskIDParams.ID idParams))
                          \<lparr>Params := paramsBytes\<rparr>) = (Some fullResponse, None)
       \<and> Error fullResponse = Some e
       \<longrightarrow> CancelTasks c x idParams
             = Inr (None, Some (Errorf ''a2aClient.CancelTasks: %w'' [ArgErr (RPCError e)])))
 \<and> (\<forall>response.
     (doRequest c x request = (Some response, None)) =
     (\<exists>reqBody req0 resp.
        Marshal_Request x request = Inr reqBody
        \<and> NewRequestWithContext x MethodPost (baseURL c) reqBody = Inr req0
        \<and> httpClient_Do x
             (if userAgent c \<noteq> []
              then Header_Set (Header_Set (Header_Set req0 ''Content-Type''
                     ''application/json; charset=utf-8'') ''Accept'' ''application/json'')
                     ''User-Agent'' (userAgent c)
              else Header_Set (Header_Set req0 ''Content-Type''
                     ''application/json; charset=utf-8'') ''Accept'' ''application/json'')
            = Inr resp
        \<and> 200 \<le> StatusCode resp \<and> StatusCode resp < 300
        \<and> Unmarshal_RawResponse x (HTTPResponse.Body resp) = Inr response))
 \<and> (\<forall>reqBody req0 resp.
     Marshal_Request x request = Inr reqBody
     \<and> NewRequestWithContext x MethodPost (baseURL c) reqBody = Inr req0
     \<and> httpClient_Do x
          (if userAgent c \<noteq> []
           then Header_Set (Header_Set (Header_Set req0 ''Content-Type''
                  ''application/json; charset=utf-8'') ''Accept'' ''application/json'')
                  ''User-Agent'' (userAgent c)
           else Header_Set (Header_Set req0 ''Content-Type''
                  ''application/json; charset=utf-8'') ''Accept'' ''application/json'')
         = Inr resp
     \<and> (StatusCode resp < 200 \<or> 300 \<le> StatusCode resp)
     \<longrightarrow> doRequest c x request
           = (None, Some (Errorf ''a2aClient.doRequest: unexpected http status %d: %s''
                            [ArgInt (StatusCode resp), ArgStr (HTTPResponse.Body resp)])))
 \<and> (\<forall>r err. doRequest c x request = (r, Some err)
     \<longrightarrow> doRequestAndDecodeTask c x request = Inr (None, Some err))
 \<and> (\<forall>fullResponse.
     doRequest c x request = (Some fullResponse, None) \<and> Error fullResponse = None
     \<and> Result fullResponse = []
     \<longrightarrow> doRequestAndDecodeTask c x request
           = Inr (None, Some (Errorf ''rpc response missing required 'result' field for id %v''
                                [ArgStr (Request.ID request)])))
 \<and> (\<forall>fullResponse err.
     doRequest c x request = (Some fullResponse, None) \<and> Error fullResponse = None
     \<and> Result fullResponse \<noteq> [] \<and> Unmarshal_Task x (Result fullResponse) = Inl err
     \<longrightarrow> doRequestAndDecodeTask c x request
           = Inr (None, Some (Errorf ''failed to unmarshal rpc result: %w. Raw result: %s''
                                [ArgErr err, ArgStr (Result fullResponse)])))
 \<and> (\<forall>task.
     (doRequestAndDecodeTask c x request = Inr (Some task, None)) =
     (\<exists>fullResponse.
        doRequest c x request = (Some fullResponse, None) \<and> Error fullResponse = None
        \<and> Result fullResponse \<noteq> [] \<and> Unmarshal_Task x (Result fullResponse) = Inr task))
 \<and> (\<forall>err. Marshal_SendTaskParams x sendParams = Inl err
      \<longrightarrow> SendTasks c x sendParams
            = Inr (None, Some (Errorf ''a2aClient.SendTasks: failed to marshal params: %w''
                                 [ArgErr err])))
 \<and> (\<forall>paramsBytes err.
       Marshal_SendTaskParams x sendParams = Inr paramsBytes
       \<and> doRequestAndDecodeTask c x ((NewRequest MethodTasksSend (SendTaskParams.ID sendParams))
                                       \<lparr>Params := paramsBytes\<rparr>) = Inr (None, Some err)
      \<longrightarrow> SendTasks c x sendParams
            = Inr (None, Some (Errorf ''a2aClient.SendTasks: %w'' [ArgErr err])))
 \<and> (\<forall>task.
       (SendTasks c x sendParams = Inr (Some task, None)) =
       (\<exists>paramsBytes.
          Marshal_SendTaskParams x sendParams = Inr paramsBytes
          \<and> doRequestAndDecodeTask c x ((NewRequest MethodTasksSend (SendTaskParams.ID sendParams))
                                          \<lparr>Params := paramsBytes\<rparr>) = Inr (Some task, None)))
 \<and> (\<forall>err. Marshal_TaskQueryParams x queryParams = Inl err
      \<longrightarrow> GetTasks c x queryParams
            = Inr (None, Some (Errorf ''a2aClient.GetTasks: failed to marshal params: %w''
                                 [ArgErr err])))
 \<and> (\<forall>paramsBytes err.
       Marshal_TaskQueryParams x queryParams = Inr paramsBytes
       \<and> doRequestAndDecodeTask c x ((NewRequest MethodTasksGet (TaskQueryParams.ID queryParams))
                                       \<lparr>Params := paramsBytes\<rparr>) = Inr (None, Some err)
      \<longrightarrow> GetTasks c x queryParams
            = Inr (None, Some (Errorf ''a2aClient.GetTasks: %w'' [ArgErr err])))
 \<and> (\<forall>task.
       (GetTasks c x queryParams = Inr (Some task, None)) =
       (\<exists>paramsBytes.
          Marshal_TaskQueryParams x queryParams = Inr paramsBytes
          \<and> doRequestAndDecodeTask c x ((NewRequest MethodTasksGet (TaskQueryParams.ID queryParams))
                                          \<lparr>Params := paramsBytes\<rparr>) = Inr (Some task, None)))
 \<and> (\<forall>err. Marshal_TaskIDParams x idParams = Inl err
      \<longrightarrow> CancelTasks c x idParams
            = Inr (None, Some (Errorf ''a2aClient.CancelTasks: failed to marshal params: %w''
                                 [ArgErr err])))
 \<and> (\<forall>paramsBytes err.
       Marshal_TaskIDParams x idParams = Inr paramsBytes
       \<and> doRequestAndDecodeTask c x ((NewRequest MethodTasksCancel (TaskIDParams.ID idParams))
                                       \<lparr>Params := paramsBytes\<rparr>) = Inr (None, Some err)
      \<longrightarrow> CancelTasks c x idParams
            = Inr (None, Some (Errorf ''a2aClient.CancelTasks: %w'' [ArgErr err])))
 \<and> (\<forall>task.
       (CancelTasks c x idParams = Inr (Some task, None)) =
       (\<exists>paramsBytes.
          Marshal_TaskIDParams x idParams = Inr paramsBytes
          \<and> doRequestAndDecodeTask c x ((NewRequest MethodTasksCancel (TaskIDParams.ID idParams))
                                          \<lparr>Params := paramsBytes\<rparr>) = Inr (Some task, None)))"
  using sync_operations_shape [of c x sendParams queryParams idParams request]
    doRequest_success_iff [of c x request]
    doRequest_http_status_error [of x request c]
    doRequestAndDecodeTask_request_failed [of c x request]
    doRequestAndDecodeTask_missing_result [of c x request]
    doRequestAndDecodeTask_decode_failed [of c x request]
    doRequestAndDecodeTask_task_iff [of c x request]
    SendTasks_results [of x sendParams c]
    GetTasks_results [of x queryParams c]
    CancelTasks_results [of x idParams c]
  apply -
  apply (elim conjE)
  apply (intro conjI)
  apply assumption+
  done

text \<open>
  The claim at work.  The server answers 200 with an envelope whose error field reports
  that the task was not found: \<^verbatim>\<open>SendTasks\<close> returns no task and that error,
  wrapped.  The server answers 200 with an envelope whose result is the submitted task
  \<^verbatim>\<open>t1\<close>: \<^verbatim>\<open>SendTasks\<close> returns that task and no error.
\<close>

theorem sync_operations_task_xor_error_witness:
  "doRequest exampleClient (exampleExternals (exampleResponse 200 ''application/json'' ''error-envelope''))
       ((NewRequest MethodTasksSend (SendTaskParams.ID exampleParams))\<lparr>Params := ''params''\<rparr>)
     = (Some \<lparr> Error = Some (ErrTaskNotFound ''t1''), Result = [] \<rparr>, None)
   \<and> SendTasks exampleClient
        (exampleExternals (exampleResponse 200 ''application/json'' ''error-envelope'')) exampleParams
     = Inr (None, Some (Errorf ''a2aClient.SendTasks: %w''
                           [ArgErr (RPCError (ErrTaskNotFound ''t1''))]))
   \<and> doRequest exampleClient
        (exampleTaskServer (exampleResponse 200 ''application/json'' ''task-envelope''))
        ((NewRequest MethodTasksSend (SendTaskParams.ID exampleParams))\<lparr>Params := ''params''\<rparr>)
     = (Some \<lparr> Error = None, Result = ''task-json'' \<rparr>, None)
   \<and> SendTasks exampleClient
        (exampleTaskServer (exampleResponse 200 ''application/json'' ''task-envelope''))
        exampleParams
     = Inr (Some (exampleTask TaskStateSubmitted), None)"
proof -
  let ?x = "exampleExternals (exampleResponse 200 ''application/json'' ''error-envelope'')"
  let ?y = "exampleTaskServer (exampleResponse 200 ''application/json'' ''task-envelope'')"
  let ?req = "(NewRequest MethodTasksSend (SendTaskParams.ID exampleParams))\<lparr>Params := ''params''\<rparr>"
  let ?ok = "\<lparr> Error = None, Result = ''task-json'' \<rparr>"
  have m: "Marshal_SendTaskParams ?x exampleParams = Inr ''params''"
    by (simp add: exampleExternals_def)
  have d: "doRequest exampleClient ?x ?req
           = (Some \<lparr> Error = Some (ErrTaskNotFound ''t1''), Result = [] \<rparr>, None)"
    by (simp add: doRequest_def exampleExternals_def exampleResponse_def exampleClient_def
        Let_def)
  have e: "Error \<lparr> Error = Some (ErrTaskNotFound ''t1''), Result = [] \<rparr>
             = Some (ErrTaskNotFound ''t1'')"
    by simp
  have rpc: "\<forall>paramsBytes fullResponse e.
       Marshal_SendTaskParams ?x exampleParams = Inr paramsBytes
       \<and> doRequest exampleClient ?x ((NewRequest MethodTasksSend (SendTaskParams.ID exampleParams))
                          \<lparr>Params := paramsBytes\<rparr>) = (Some fullResponse, None)
       \<and> Error fullResponse = Some e
       \<longrightarrow> SendTasks exampleClient ?x exampleParams
             = Inr (None, Some (Errorf ''a2aClient.SendTasks: %w'' [ArgErr (RPCError e)]))"
    using sync_operations_task_xor_error
            [of exampleClient ?x exampleParams "\<lparr>TaskQueryParams.ID = ''t1''\<rparr>"
                "\<lparr>TaskIDParams.ID = ''t1''\<rparr>" ?req]
    apply -
    apply (elim conjE)
    apply assumption
    done
  from rpc [rule_format, OF conjI [OF m conjI [OF d e]]]
  have failed: "SendTasks exampleClient ?x exampleParams
     = Inr (None, Some (Errorf ''a2aClient.SendTasks: %w''
                           [ArgErr (RPCError (ErrTaskNotFound ''t1''))]))" .
  have m': "Marshal_SendTaskParams ?y exampleParams = Inr ''params''"
    by (simp add: exampleTaskServer_def exampleExternals_def)
  have d': "doRequest exampleClient ?y ?req = (Some ?ok, None)"
    by (simp add: doRequest_def exampleTaskServer_def exampleExternals_def exampleResponse_def
        exampleClient_def Let_def)
  have u: "Error ?ok = None \<and> Result ?ok \<noteq> []
           \<and> Unmarshal_Task ?y (Result ?ok) = Inr (exampleTask TaskStateSubmitted)"
    by (simp add: exampleTaskServer_def)
  have dec: "\<forall>task.
     (doRequestAndDecodeTask exampleClient ?y ?req = Inr (Some task, None)) =
     (\<exists>fullResponse.
        doRequest exampleClient ?y ?req = (Some fullResponse, None) \<and> Error fullResponse = None
        \<and> Result fullResponse \<noteq> [] \<and> Unmarshal_Task ?y (Result fullResponse) = Inr task)"
    using sync_operations_task_xor_error
            [of exampleClient ?y exampleParams "\<lparr>TaskQueryParams.ID = ''t1''\<rparr>"
                "\<lparr>TaskIDParams.ID = ''t1''\<rparr>" ?req]
    apply -
    apply (elim conjE)
    apply assumption
    done
  have send: "\<forall>task.
       (SendTasks exampleClient ?y exampleParams = Inr (Some task, None)) =
       (\<exists>paramsBytes.
          Marshal_SendTaskParams ?y exampleParams = Inr paramsBytes
          \<and> doRequestAndDecodeTask exampleClient ?y
               ((NewRequest MethodTasksSend (SendTaskParams.ID exampleParams))
                  \<lparr>Params := paramsBytes\<rparr>) = Inr (Some task, None))"
    using sync_operations_task_xor_error
            [of exampleClient ?y exampleParams "\<lparr>TaskQueryParams.ID = ''t1''\<rparr>"
                "\<lparr>TaskIDParams.ID = ''t1''\<rparr>" ?req]
    apply -
    apply (elim conjE)
    apply assumption
    done
  from d' u have "\<exists>fullResponse.
        doRequest exampleClient ?y ?req = (Some fullResponse, None) \<and> Error fullResponse = None
        \<and> Result fullResponse \<noteq> []
        \<and> Unmarshal_Task ?y (Result fullResponse) = Inr (exampleTask TaskStateSubmitted)"
    by (intro exI [of _ ?ok]) simp
  with dec have t: "doRequestAndDecodeTask exampleClient ?y ?req
                     = Inr (Some (exampleTask TaskStateSubmitted), None)"
    by simp
  from m' t have "\<exists>paramsBytes.
          Marshal_SendTaskParams ?y exampleParams = Inr paramsBytes
          \<and> doRequestAndDecodeTask exampleClient ?y
               ((NewRequest MethodTasksSend (SendTaskParams.ID exampleParams))
                  \<lparr>Params := paramsBytes\<rparr>) = Inr (Some (exampleTask TaskStateSubmitted), None)"
    by (intro exI [of _ "''params''"]) simp
  with send have decoded: "SendTasks exampleClient ?y exampleParams
                     = Inr (Some (exampleTask TaskStateSubmitted), None)"
    by simp
  from d failed d' decoded show ?thesis by (intro conjI)
qed

section \<open>Properties of StreamTask\<close>

lemma strings_Contains_sublist: "strings_Contains s substr \<longleftrightarrow> sublist substr s"
  by (induction s) (auto simp: sublist_Cons_right)

lemma StreamTask_rejects:
  assumes "Marshal_SendTaskParams x params = Inr paramsBytes"
    and "Marshal_Request x ((NewRequest MethodTasksSendSubscribe (SendTaskParams.ID params))
                            \<lparr>Params := paramsBytes\<rparr>) = Inr reqBody"
    and "NewRequestWithContext x MethodPost (baseURL c) reqBody = Inr req0"
    and "httpClient_Do x
           (if userAgent c \<noteq> []
            then Header_Set (Header_Set (Header_Set req0 ''Content-Type''
                   ''application/json; charset=utf-8'') ''Accept'' ''text/event-stream'')
                   ''User-Agent'' (userAgent c)
            else Header_Set (Header_Set req0 ''Content-Type''
                   ''application/json; charset=utf-8'') ''Accept'' ''text/event-stream'')
          = Inr resp"
    and "StatusCode resp \<noteq> 200
           \<or> \<not> strings_Contains (Header_Get resp ''Content-Type'') ''text/event-stream''"
  shows "retErr (StreamTask c x params) \<noteq> None
         \<and> retChan (StreamTask c x params) = None
         \<and> readerStarted (StreamTask c x params) = None
         \<and> bodyClosed (StreamTask c x params)"
  using assms by (auto simp: StreamTask_def Let_def StatusOK_def)

lemma StreamTask_accepts:
  assumes "Marshal_SendTaskParams x params = Inr paramsBytes"
    and "Marshal_Request x ((NewRequest MethodTasksSendSubscribe (SendTaskParams.ID params))
                            \<lparr>Params := paramsBytes\<rparr>) = Inr reqBody"
    and "NewRequestWithContext x MethodPost (baseURL c) reqBody = Inr req0"
    and "httpClient_Do x
           (if userAgent c \<noteq> []
            then Header_Set (Header_Set (Header_Set req0 ''Content-Type''
                   ''application/json; charset=utf-8'') ''Accept'' ''text/event-stream'')
                   ''User-Agent'' (userAgent c)
            else Header_Set (Header_Set req0 ''Content-Type''
                   ''application/json; charset=utf-8'') ''Accept'' ''text/event-stream'')
          = Inr resp"
    and "StatusCode resp = 200
           \<and> strings_Contains (Header_Get resp ''Content-Type'') ''text/event-stream''"
  shows "retErr (StreamTask c x params) = None
         \<and> retChan (StreamTask c x params) = Some make_chan
         \<and> readerStarted (StreamTask c x params)
              = Some (resp, SendTaskParams.ID params, make_chan)
         \<and> \<not> bodyClosed (StreamTask c x params)"
  using assms by (auto simp: StreamTask_def Let_def StatusOK_def)

lemma StreamTask_channel_iff_no_error:
  "(retChan (StreamTask c x params) \<noteq> None) = (retErr (StreamTask c x params) = None)
   \<and> (readerStarted (StreamTask c x params) \<noteq> None) = (retErr (StreamTask c x params) = None)"
  by (simp add: StreamTask_def Let_def split: sum.splits)

text \<open>
  Claim C3.  Whenever the request goes out and a response comes back: if its status is
  not 200 or its \<^verbatim>\<open>Content-Type\<close> does not contain \<^verbatim>\<open>text/event-stream\<close>,
  \<^verbatim>\<open>StreamTask\<close> returns an error and no channel and starts no reader (and has
  closed the body); if both checks pass it returns a fresh channel and no error and
  starts the reader on that response, task ID and channel.  On every path, with or
  without a response, a channel is returned exactly when no error is, and exactly then
  is the reader started.
\<close>

theorem StreamTask_checks_before_reader:
  "(\<forall>paramsBytes reqBody req0 resp.
      Marshal_SendTaskParams x params = Inr paramsBytes
      \<and> Marshal_Request x ((NewRequest MethodTasksSendSubscribe (SendTaskParams.ID params))
                            \<lparr>Params := paramsBytes\<rparr>) = Inr reqBody
      \<and> NewRequestWithContext x MethodPost (baseURL c) reqBody = Inr req0
      \<and> httpClient_Do x
           (if userAgent c \<noteq> []
            then Header_Set (Header_Set (Header_Set req0 ''Content-Type''
                   ''application/json; charset=utf-8'') ''Accept'' ''text/event-stream'')
                   ''User-Agent'' (userAgent c)
            else Header_Set (Header_Set req0 ''Content-Type''
                   ''application/json; charset=utf-8'') ''Accept'' ''text/event-stream'')
          = Inr resp
      \<longrightarrow>
        ((StatusCode resp \<noteq> 200
           \<or> \<not> strings_Contains (Header_Get resp ''Content-Type'') ''text/event-stream''
          \<longrightarrow> retErr (StreamTask c x params) \<noteq> None
              \<and> retChan (StreamTask c x params) = None
              \<and> readerStarted (StreamTask c x params) = None
              \<and> bodyClosed (StreamTask c x params))
       \<and> (StatusCode resp = 200
           \<and> strings_Contains (Header_Get resp ''Content-Type'') ''text/event-stream''
          \<longrightarrow> retErr (StreamTask c x params) = None
              \<and> retChan (StreamTask c x params) = Some make_chan
              \<and> readerStarted (StreamTask c x params)
                   = Some (resp, SendTaskParams.ID params, make_chan)
              \<and> \<not> bodyClosed (StreamTask c x params))))
 \<and> (retChan (StreamTask c x params) \<noteq> None) = (retErr (StreamTask c x params) = None)
 \<and> (readerStarted (StreamTask c x params) \<noteq> None) = (retErr (StreamTask c x params) = None)"
  using StreamTask_rejects [of x params _ _ c] StreamTask_accepts [of x params _ _ c]
    StreamTask_channel_iff_no_error [of c x params]
  by (intro conjI allI impI) blast+

text \<open>
  The claim at work: against a server that answers 404, \<^verbatim>\<open>StreamTask\<close> returns an
  error, no channel, and starts no reader.
\<close>

theorem StreamTask_checks_before_reader_witness:
  "StatusCode (exampleResponse 404 ''text/plain'' ''not found'') \<noteq> 200
   \<and> retErr (StreamTask exampleClient
        (exampleExternals (exampleResponse 404 ''text/plain'' ''not found'')) exampleParams) \<noteq> None
   \<and> retChan (StreamTask exampleClient
        (exampleExternals (exampleResponse 404 ''text/plain'' ''not found'')) exampleParams) = None
   \<and> readerStarted (StreamTask exampleClient
        (exampleExternals (exampleResponse 404 ''text/plain'' ''not found'')) exampleParams) = None"
proof -
  let ?resp = "exampleResponse 404 ''text/plain'' ''not found''"
  let ?x = "exampleExternals ?resp"
  let ?req0 = "\<lparr> URL = baseURL exampleClient, HTTPRequest.Header = Map.empty,
                 HTTPRequest.Body = ''request'' \<rparr>"
  have s: "StatusCode ?resp \<noteq> 200" by (simp add: exampleResponse_def)
  have h: "Marshal_SendTaskParams ?x exampleParams = Inr ''params''
      \<and> Marshal_Request ?x ((NewRequest MethodTasksSendSubscribe (SendTaskParams.ID exampleParams))
                            \<lparr>Params := ''params''\<rparr>) = Inr ''request''
      \<and> NewRequestWithContext ?x MethodPost (baseURL exampleClient) ''request'' = Inr ?req0
      \<and> httpClient_Do ?x
           (if userAgent exampleClient \<noteq> []
            then Header_Set (Header_Set (Header_Set ?req0 ''Content-Type''
                   ''application/json; charset=utf-8'') ''Accept'' ''text/event-stream'')
                   ''User-Agent'' (userAgent exampleClient)
            else Header_Set (Header_Set ?req0 ''Content-Type''
                   ''application/json; charset=utf-8'') ''Accept'' ''text/event-stream'')
          = Inr ?resp"
    by (simp add: exampleExternals_def)
  from StreamTask_checks_before_reader [of ?x exampleParams exampleClient] h s
  have "retErr (StreamTask exampleClient ?x exampleParams) \<noteq> None
      \<and> retChan (StreamTask exampleClient ?x exampleParams) = None
      \<and> readerStarted (StreamTask exampleClient ?x exampleParams) = None
      \<and> bodyClosed (StreamTask exampleClient ?x exampleParams)"
    by blast
  with s show ?thesis by blast
qed

section \<open>Properties of the stream reader\<close>


lemma loopBody_stop:
  assumes "stopCondition env i = Some c"
  shows "loopBody env taskID i st = Return (logf st (report taskID c))"
proof (cases "ctxDone env i")
  case True
  with assms show ?thesis by (simp add: stopCondition_def loopBody_def)
next
  case False
  obtain b t e where r: "ReadEvent env i = (b, t, e)" by (cases "ReadEvent env i") auto
  show ?thesis
  proof (cases e)
    case (Some err)
    with assms False r show ?thesis by (auto simp: stopCondition_def loopBody_def)
  next
    case None
    show ?thesis
    proof (cases "b \<noteq> [] \<and> t = EventClose")
      case True
      with assms False r None show ?thesis by (auto simp: stopCondition_def loopBody_def)
    next
      case nc: False
      with assms False r None have d: "deliverable env i" and s: "sendSelect env i = SelectCtxDone"
        and c: "c = ContextDoneWhileSending"
        by (auto simp: stopCondition_def split: if_splits)
      from d r None have b: "b \<noteq> []" and t: "t \<noteq> EventClose" by (auto simp: deliverable_def)
      from d r None b t s c False show ?thesis
        by (auto simp: deliverable_def loopBody_def sendEvent_def split: if_splits sum.splits)
    qed
  qed
qed

lemma loopBody_wait:
  assumes "waitsForever env i"
  shows "loopBody env taskID i st = WaitForever"
proof -
  obtain b t e where r: "ReadEvent env i = (b, t, e)" by (cases "ReadEvent env i") auto
  from assms have nd: "\<not> ctxDone env i" and d: "deliverable env i" and s: "sendSelect env i = SelectNever"
    by (auto simp: waitsForever_def)
  from d r have e: "e = None" by (cases e) (auto simp: deliverable_def)
  from d r e nd s show ?thesis
    by (auto simp: deliverable_def loopBody_def sendEvent_def split: if_splits sum.splits)
qed

lemma loopBody_continue:
  assumes "stopCondition env i = None" and "\<not> waitsForever env i" and "\<not> closed (eventsChan st)"
  shows "\<exists>st'. loopBody env taskID i st = Continue st' \<and> \<not> closed (eventsChan st')"
proof -
  obtain b t e where r: "ReadEvent env i = (b, t, e)" by (cases "ReadEvent env i") auto
  from assms(1) have nd: "\<not> ctxDone env i" by (auto simp: stopCondition_def split: if_splits)
  from assms(1) nd r have e: "e = None" by (cases e) (auto simp: stopCondition_def)
  show ?thesis
  proof (cases "deliverable env i")
    case True
    with assms nd have s: "sendSelect env i = SelectSend"
      using r e by (cases "sendSelect env i") (auto simp: stopCondition_def waitsForever_def split: if_splits)
    from True r e nd s assms(3) show ?thesis
      by (auto simp: deliverable_def loopBody_def sendEvent_def chan_send_def split: if_splits sum.splits)
  next
    case False
    from assms(1) nd r e have nc: "\<not> (b \<noteq> [] \<and> t = EventClose)"
      by (auto simp: stopCondition_def split: if_splits)
    from False r e nd nc assms(3) show ?thesis
      by (auto simp: deliverable_def loopBody_def logf_def split: if_splits sum.splits)
  qed
qed


lemma readLoop_Continue:
  "loopBody env taskID i st = Continue st' \<Longrightarrow> readLoop env taskID i st = readLoop env taskID (Suc i) st'"
  by (subst readLoop.simps) simp

lemma readLoop_Return:
  "loopBody env taskID i st = Return st' \<Longrightarrow> readLoop env taskID i st = Some (Inr st')"
  by (subst readLoop.simps) simp

lemma readLoop_WaitForever:
  "loopBody env taskID i st = WaitForever \<Longrightarrow> readLoop env taskID i st = None"
  by (subst readLoop.simps) simp

lemma readLoop_reaches_stop:
  assumes "stopCondition env k = Some c"
    and "\<forall>j. i \<le> j \<and> j < k \<longrightarrow> stopCondition env j = None \<and> \<not> waitsForever env j"
    and "i \<le> k" and "\<not> closed (eventsChan st)"
  shows "\<exists>st'. readLoop env taskID i st = Some (Inr st') \<and> \<not> closed (eventsChan st')
               \<and> last (logged st') = report taskID c"
  using assms(2-4)
proof (induction "k - i" arbitrary: i st)
  case 0
  then have "i = k" by simp
  with assms(1) have "loopBody env taskID i st = Return (logf st (report taskID c))"
    by (simp add: loopBody_stop)
  then have "readLoop env taskID i st = Some (Inr (logf st (report taskID c)))"
    by (rule readLoop_Return)
  with "0.prems" show ?case by (simp add: logf_def)
next
  case (Suc n)
  then have lt: "i < k" by simp
  with Suc.prems have "stopCondition env i = None" "\<not> waitsForever env i" by auto
  from loopBody_continue [OF this Suc.prems(3), of taskID]
  obtain st1 where b: "loopBody env taskID i st = Continue st1" and o: "\<not> closed (eventsChan st1)"
    by blast
  have "n = k - Suc i" using Suc.hyps(2) by simp
  moreover have "\<forall>j. Suc i \<le> j \<and> j < k \<longrightarrow> stopCondition env j = None \<and> \<not> waitsForever env j"
    using Suc.prems(1) by auto
  moreover have "Suc i \<le> k" using lt by simp
  ultimately obtain st' where "readLoop env taskID (Suc i) st1 = Some (Inr st')"
    "\<not> closed (eventsChan st')" "last (logged st') = report taskID c"
    using Suc.hyps(1) [of "Suc i" st1] o by blast
  with readLoop_Continue [OF b] show ?case by auto
qed

lemma readLoop_reaches_wait:
  assumes "waitsForever env k"
    and "\<forall>j. i \<le> j \<and> j < k \<longrightarrow> stopCondition env j = None \<and> \<not> waitsForever env j"
    and "i \<le> k" and "\<not> closed (eventsChan st)"
  shows "readLoop env taskID i st = None"
  using assms(2-4)
proof (induction "k - i" arbitrary: i st)
  case 0
  then have "i = k" by simp
  with assms(1) have "loopBody env taskID i st = WaitForever"
    by (simp add: loopBody_wait)
  then show ?case by (rule readLoop_WaitForever)
next
  case (Suc n)
  then have lt: "i < k" by simp
  with Suc.prems have "stopCondition env i = None" "\<not> waitsForever env i" by auto
  from loopBody_continue [OF this Suc.prems(3), of taskID]
  obtain st1 where b: "loopBody env taskID i st = Continue st1" and o: "\<not> closed (eventsChan st1)"
    by blast
  have "n = k - Suc i" using Suc.hyps(2) by simp
  moreover have "\<forall>j. Suc i \<le> j \<and> j < k \<longrightarrow> stopCondition env j = None \<and> \<not> waitsForever env j"
    using Suc.prems(1) by auto
  moreover have "Suc i \<le> k" using lt by simp
  ultimately have "readLoop env taskID (Suc i) st1 = None"
    using Suc.hyps(1) [of "Suc i" st1] o by blast
  with readLoop_Continue [OF b] show ?case by simp
qed

lemma readLoop_Some_stop:
  assumes "readLoop env taskID i st = Some y"
  shows "\<not> closed (eventsChan st) \<Longrightarrow> \<exists>k\<ge>i. stopCondition env k \<noteq> None"
  using assms
proof (induction rule: readLoop.raw_induct [rotated 1, consumes 1])
  case (1 rl env taskID i st y)
  show ?case
  proof (cases "stopCondition env i")
    case (Some c)
    then show ?thesis by auto
  next
    case None
    show ?thesis
    proof (cases "waitsForever env i")
      case True
      then have "loopBody env taskID i st = WaitForever" by (rule loopBody_wait)
      with "1.hyps" show ?thesis by simp
    next
      case False
      from loopBody_continue [OF None False "1.prems", of taskID]
      obtain st1 where b: "loopBody env taskID i st = Continue st1" and o: "\<not> closed (eventsChan st1)"
        by blast
      with "1.hyps" have "rl env taskID (Suc i) st1 = Some y" by simp
      from "1.IH" [OF this o] obtain k where "k \<ge> Suc i" "stopCondition env k \<noteq> None" by blast
      then show ?thesis by (intro exI [of _ k]) simp
    qed
  qed
qed

lemma loopBody_agree:
  assumes "ctxDone env' i = ctxDone env i" and "ReadEvent env' i = ReadEvent env i"
    and "sendSelect env' i = sendSelect env i"
    and "Unmarshal_TaskStatusUpdateEvent env' = Unmarshal_TaskStatusUpdateEvent env"
    and "Unmarshal_TaskArtifactUpdateEvent env' = Unmarshal_TaskArtifactUpdateEvent env"
  shows "loopBody env' taskID i st = loopBody env taskID i st"
proof -
  have "sendEvent env' taskID i st ev = sendEvent env taskID i st ev" for ev
    using assms(3) by (simp add: sendEvent_def)
  with assms show ?thesis
    by (auto simp: loopBody_def split: prod.splits option.splits sum.splits)
qed

lemma readLoop_agree:
  assumes "\<forall>j\<le>k. ctxDone env' j = ctxDone env j \<and> ReadEvent env' j = ReadEvent env j
                 \<and> sendSelect env' j = sendSelect env j"
    and "Unmarshal_TaskStatusUpdateEvent env' = Unmarshal_TaskStatusUpdateEvent env"
    and "Unmarshal_TaskArtifactUpdateEvent env' = Unmarshal_TaskArtifactUpdateEvent env"
    and "\<forall>st. \<exists>st'. loopBody env taskID k st = Return st'"
  shows "i \<le> k \<Longrightarrow> readLoop env' taskID i st = readLoop env taskID i st"
proof (induction "k - i" arbitrary: i st)
  case 0
  then have ik: "i = k" by simp
  from assms(4) obtain st' where r: "loopBody env taskID k st = Return st'" by blast
  have "loopBody env' taskID k st = loopBody env taskID k st"
    using assms(1-3) by (intro loopBody_agree) auto
  with r ik show ?case by (simp add: readLoop_Return)
next
  case (Suc n)
  then have lt: "i < k" by simp
  have same: "loopBody env' taskID i st = loopBody env taskID i st"
    using assms(1-3) lt by (intro loopBody_agree) auto
  have n: "n = k - Suc i" using Suc.hyps(2) by simp
  show ?case
  proof (cases "loopBody env taskID i st")
    case (Continue st1)
    with same have "readLoop env' taskID i st = readLoop env' taskID (Suc i) st1"
      by (simp add: readLoop_Continue)
    also have "\<dots> = readLoop env taskID (Suc i) st1"
      using Suc.hyps(1) [OF n] lt by simp
    also have "\<dots> = readLoop env taskID i st"
      using Continue by (simp add: readLoop_Continue)
    finally show ?thesis .
  next
    case (Return st1)
    with same show ?thesis by (simp add: readLoop_Return)
  next
    case WaitForever
    with same show ?thesis by (simp add: readLoop_WaitForever)
  next
    case (Panicked p)
    with same show ?thesis by (subst (1 2) readLoop.simps) simp
  qed
qed





lemma loopBody_close_frame_returns:
  assumes "ReadEvent env k = (eventBytes, EventClose, None)" and "eventBytes \<noteq> []"
  shows "\<exists>st'. loopBody env taskID k st = Return st'"
  using assms by (simp add: loopBody_def)

text \<open>
  Claim C1, as amended.  Let frame \<open>k\<close> of the stream be a \<^verbatim>\<open>close\<close> frame with a
  non-empty payload.  If the context is not done when the reader reaches it, the loop
  returns in that very iteration, having only logged the frame: nothing is sent.  And
  nothing that comes after frame \<open>k\<close> has any influence: two runs whose surroundings
  agree up to and including iteration \<open>k\<close> end in the same way, with the same events
  on the channel, whatever frames, cancellations or send outcomes follow.
\<close>

theorem close_frame_with_payload_ends_reading:
  assumes "ReadEvent env k = (eventBytes, EventClose, None)" and "eventBytes \<noteq> []"
  shows "(\<not> ctxDone env k \<longrightarrow>
            readLoop env taskID k st
              = Some (Inr (st\<lparr>logged := logged st @ [Debugf_ReceivedClose taskID eventBytes]\<rparr>)))
       \<and> ((\<forall>j\<le>k. ctxDone env' j = ctxDone env j \<and> ReadEvent env' j = ReadEvent env j
                   \<and> sendSelect env' j = sendSelect env j)
            \<and> Unmarshal_TaskStatusUpdateEvent env' = Unmarshal_TaskStatusUpdateEvent env
            \<and> Unmarshal_TaskArtifactUpdateEvent env' = Unmarshal_TaskArtifactUpdateEvent env
          \<longrightarrow> processSSEStream env' taskID ch = processSSEStream env taskID ch)"
proof (intro conjI impI)
  assume "\<not> ctxDone env k"
  with assms have "loopBody env taskID k st
      = Return (st\<lparr>logged := logged st @ [Debugf_ReceivedClose taskID eventBytes]\<rparr>)"
    by (simp add: loopBody_def logf_def)
  then show "readLoop env taskID k st
      = Some (Inr (st\<lparr>logged := logged st @ [Debugf_ReceivedClose taskID eventBytes]\<rparr>))"
    by (rule readLoop_Return)
next
  assume a: "(\<forall>j\<le>k. ctxDone env' j = ctxDone env j \<and> ReadEvent env' j = ReadEvent env j
                   \<and> sendSelect env' j = sendSelect env j)
            \<and> Unmarshal_TaskStatusUpdateEvent env' = Unmarshal_TaskStatusUpdateEvent env
            \<and> Unmarshal_TaskArtifactUpdateEvent env' = Unmarshal_TaskArtifactUpdateEvent env"
  have stops: "\<forall>st. \<exists>st'. loopBody env taskID k st = Return st'"
    using loopBody_close_frame_returns [OF assms] by blast
  have "readLoop env' taskID 0 st0 = readLoop env taskID 0 st0" for st0
    using a stops by (intro readLoop_agree [where k = k]) auto
  then show "processSSEStream env' taskID ch = processSSEStream env taskID ch"
    by (simp add: processSSEStream_def)
qed

text \<open>
  The amended claim at work: the second frame is a \<^verbatim>\<open>close\<close> frame with payload
  \<^verbatim>\<open>bye\<close>.  With or without the two status frames that follow it, the caller gets
  the one event of the first frame and then the closed channel.
\<close>

theorem close_frame_with_payload_ends_reading_witness:
  "processSSEStream
     (exampleStream [(''status-json'', ''task_status_update''), (''bye'', ''close''),
                     (''status-json'', ''task_status_update''),
                     (''status-json'', ''task_status_update'')]) ''t1'' make_chan
   = processSSEStream
       (exampleStream [(''status-json'', ''task_status_update''), (''bye'', ''close'')])
       ''t1'' make_chan
   \<and> processSSEStream
       (exampleStream [(''status-json'', ''task_status_update''), (''bye'', ''close'')])
       ''t1'' make_chan
   = Some (Inr \<lparr> channel = \<lparr>sent = [StatusUpdate exampleStatusEvent], closed = True\<rparr>,
                 respBodyClosed = True,
                 logs = [Debugf_ProcessorStarted ''t1'', Debugf_ReceivedClose ''t1'' ''bye''] \<rparr>)"
proof -
  let ?env = "exampleStream [(''status-json'', ''task_status_update''), (''bye'', ''close'')]"
  let ?env' = "exampleStream [(''status-json'', ''task_status_update''), (''bye'', ''close''),
                     (''status-json'', ''task_status_update''),
                     (''status-json'', ''task_status_update'')]"
  have r: "ReadEvent ?env 1 = (''bye'', EventClose, None)"
    by (simp add: exampleStream_def EventClose_def)
  have n: "''bye'' \<noteq> []" by simp
  have a0: "ctxDone ?env' 0 = ctxDone ?env 0 \<and> ReadEvent ?env' 0 = ReadEvent ?env 0
                   \<and> sendSelect ?env' 0 = sendSelect ?env 0"
    by (simp add: exampleStream_def)
  have a1: "ctxDone ?env' 1 = ctxDone ?env 1 \<and> ReadEvent ?env' 1 = ReadEvent ?env 1
                   \<and> sendSelect ?env' 1 = sendSelect ?env 1"
    by (simp add: exampleStream_def)
  have agree: "\<forall>j\<le>1. ctxDone ?env' j = ctxDone ?env j \<and> ReadEvent ?env' j = ReadEvent ?env j
                   \<and> sendSelect ?env' j = sendSelect ?env j"
  proof (intro allI impI)
    fix j :: nat
    assume "j \<le> 1"
    then have "j = 0 \<or> j = 1" by auto
    then show "ctxDone ?env' j = ctxDone ?env j \<and> ReadEvent ?env' j = ReadEvent ?env j
                   \<and> sendSelect ?env' j = sendSelect ?env j"
    proof
      assume "j = 0"
      with a0 show ?thesis by simp
    next
      assume "j = 1"
      with a1 show ?thesis by simp
    qed
  qed
  have dec: "Unmarshal_TaskStatusUpdateEvent ?env' = Unmarshal_TaskStatusUpdateEvent ?env
            \<and> Unmarshal_TaskArtifactUpdateEvent ?env' = Unmarshal_TaskArtifactUpdateEvent ?env"
    by (simp add: exampleStream_def)
  have e: "processSSEStream ?env ''t1'' make_chan
   = Some (Inr \<lparr> channel = \<lparr>sent = [StatusUpdate exampleStatusEvent], closed = True\<rparr>,
                 respBodyClosed = True,
                 logs = [Debugf_ProcessorStarted ''t1'', Debugf_ReceivedClose ''t1'' ''bye''] \<rparr>)"
    by (simp add: processSSEStream_def readLoop.simps loopBody_def sendEvent_def
        exampleStream_def chan_send_def chan_close_def make_chan_def logf_def EventClose_def
        EventTaskStatusUpdate_def EventTaskArtifactUpdate_def io_EOF_def)
  from close_frame_with_payload_ends_reading
         [OF r n, where env' = ?env' and taskID = "''t1''" and ch = make_chan] agree dec
  have "processSSEStream ?env' ''t1'' make_chan = processSSEStream ?env ''t1'' make_chan"
    by blast
  with e show ?thesis by simp
qed

text \<open>
  Claim C1 as stated fails: the first frame has event type \<^verbatim>\<open>close\<close> (and an empty
  payload), and the event of the frame after it is delivered to the caller.
\<close>

theorem close_frame_empty_payload_counterexample:
  "ReadEvent (exampleStream [([], ''close''), (''status-json'', ''task_status_update'')]) 0
     = ([], EventClose, None)
   \<and> processSSEStream
       (exampleStream [([], ''close''), (''status-json'', ''task_status_update'')]) ''t1'' make_chan
     = Some (Inr \<lparr> channel = \<lparr>sent = [StatusUpdate exampleStatusEvent], closed = True\<rparr>,
                   respBodyClosed = True,
                   logs = [Debugf_ProcessorStarted ''t1'', Debugf_StreamEndedEOF ''t1''] \<rparr>)"
  by (simp add: processSSEStream_def readLoop.simps loopBody_def sendEvent_def
      exampleStream_def chan_send_def chan_close_def make_chan_def logf_def EventClose_def
      EventTaskStatusUpdate_def EventTaskArtifactUpdate_def io_EOF_def)

text \<open>
  Claim C8, as amended.  Start the reader on an open channel.  If iteration \<open>k\<close> is the
  first at which a stop condition holds (the context is done, the read reports end of
  stream or another error, the frame is a \<^verbatim>\<open>close\<close> frame with a non-empty
  payload, or the context is done while an event is being sent) and no earlier send
  waits for ever, then the reader returns without a panic; its loop leaves the channel
  open and the deferred \<^verbatim>\<open>close\<close> closes it, once; the body is closed; and the last
  thing logged names the condition, end of stream being reported with \<^verbatim>\<open>Debugf\<close>
  and any other read error with \<^verbatim>\<open>Errorf\<close>.  If a send waits for ever before any
  stop condition holds, or if no stop condition ever holds, the reader never returns,
  and so never closes the channel.
\<close>

theorem reader_returns_at_first_stop_condition:
  assumes "\<not> closed ch"
  shows "(\<forall>k c. stopCondition env k = Some c
                \<and> (\<forall>j<k. stopCondition env j = None \<and> \<not> waitsForever env j) \<longrightarrow>
            (\<exists>st' r. readLoop env taskID 0
                        \<lparr>eventsChan = ch, logged = [Debugf_ProcessorStarted taskID]\<rparr>
                        = Some (Inr st')
                    \<and> \<not> closed (eventsChan st')
                    \<and> processSSEStream env taskID ch = Some (Inr r)
                    \<and> channel r = (eventsChan st')\<lparr>closed := True\<rparr>
                    \<and> respBodyClosed r
                    \<and> last (logs r) = report taskID c))
       \<and> (\<forall>k. waitsForever env k
                \<and> (\<forall>j<k. stopCondition env j = None \<and> \<not> waitsForever env j) \<longrightarrow>
            processSSEStream env taskID ch = None)
       \<and> ((\<forall>k. stopCondition env k = None) \<longrightarrow> processSSEStream env taskID ch = None)"
proof (intro conjI allI impI)
  let ?st0 = "\<lparr>eventsChan = ch, logged = [Debugf_ProcessorStarted taskID]\<rparr>"
  have open0: "\<not> closed (eventsChan ?st0)" using assms by simp
  {
    fix k c
    assume a: "stopCondition env k = Some c
                \<and> (\<forall>j<k. stopCondition env j = None \<and> \<not> waitsForever env j)"
    then have sc: "stopCondition env k = Some c"
      and bef: "\<forall>j. 0 \<le> j \<and> j < k \<longrightarrow> stopCondition env j = None \<and> \<not> waitsForever env j"
      by simp_all
    from readLoop_reaches_stop [OF sc bef le0 open0, of taskID]
    obtain st' where s: "readLoop env taskID 0 ?st0 = Some (Inr st')"
      "\<not> closed (eventsChan st')" "last (logged st') = report taskID c"
      by blast
    let ?r = "\<lparr> channel = (eventsChan st')\<lparr>closed := True\<rparr>, respBodyClosed = True,
                logs = logged st' \<rparr>"
    from s have "processSSEStream env taskID ch = Some (Inr ?r)"
      by (simp add: processSSEStream_def chan_close_def)
    with s have "readLoop env taskID 0 ?st0 = Some (Inr st')
                    \<and> \<not> closed (eventsChan st')
                    \<and> processSSEStream env taskID ch = Some (Inr ?r)
                    \<and> channel ?r = (eventsChan st')\<lparr>closed := True\<rparr>
                    \<and> respBodyClosed ?r
                    \<and> last (logs ?r) = report taskID c"
      by simp
    then show "\<exists>st' r. readLoop env taskID 0 ?st0 = Some (Inr st')
                    \<and> \<not> closed (eventsChan st')
                    \<and> processSSEStream env taskID ch = Some (Inr r)
                    \<and> channel r = (eventsChan st')\<lparr>closed := True\<rparr>
                    \<and> respBodyClosed r
                    \<and> last (logs r) = report taskID c"
      by blast
  }
  {
    fix k
    assume a: "waitsForever env k
                \<and> (\<forall>j<k. stopCondition env j = None \<and> \<not> waitsForever env j)"
    then have w: "waitsForever env k"
      and bef: "\<forall>j. 0 \<le> j \<and> j < k \<longrightarrow> stopCondition env j = None \<and> \<not> waitsForever env j"
      by simp_all
    from readLoop_reaches_wait [OF w bef le0 open0, of taskID]
    have "readLoop env taskID 0 ?st0 = None" .
    then show "processSSEStream env taskID ch = None"
      by (simp add: processSSEStream_def)
  }
  {
    assume a: "\<forall>k. stopCondition env k = None"
    have "readLoop env taskID 0 ?st0 = None"
    proof (cases "readLoop env taskID 0 ?st0")
      case None
      then show ?thesis .
    next
      case (Some y)
      from readLoop_Some_stop [OF Some open0] obtain k where "stopCondition env k \<noteq> None"
        by blast
      with a show ?thesis by simp
    qed
    then show "processSSEStream env taskID ch = None"
      by (simp add: processSSEStream_def)
  }
qed

text \<open>
  The amended claim at work: a status frame, then a \<^verbatim>\<open>close\<close> frame with payload
  \<^verbatim>\<open>bye\<close>.  The first stop condition is that frame, at iteration 1; the reader
  returns with the channel closed and reports the \<^verbatim>\<open>close\<close> frame.
\<close>

theorem reader_returns_at_first_stop_condition_witness:
  "\<not> closed make_chan
   \<and> stopCondition
       (exampleStream [(''status-json'', ''task_status_update''), (''bye'', ''close'')]) 1
     = Some (CloseFrame ''bye'')
   \<and> (\<exists>r. processSSEStream
             (exampleStream [(''status-json'', ''task_status_update''), (''bye'', ''close'')])
             ''t1'' make_chan = Some (Inr r)
          \<and> closed (channel r) \<and> respBodyClosed r
          \<and> last (logs r) = Debugf_ReceivedClose ''t1'' ''bye'')"
proof -
  let ?env = "exampleStream [(''status-json'', ''task_status_update''), (''bye'', ''close'')]"
  have o: "\<not> closed make_chan" by (simp add: make_chan_def)
  have s1: "stopCondition ?env 1 = Some (CloseFrame ''bye'')"
    by (simp add: stopCondition_def exampleStream_def EventClose_def)
  have s0: "stopCondition ?env 0 = None \<and> \<not> waitsForever ?env 0"
    by (simp add: stopCondition_def waitsForever_def deliverable_def exampleStream_def
        EventClose_def EventTaskStatusUpdate_def)
  have before: "\<forall>j<1. stopCondition ?env j = None \<and> \<not> waitsForever ?env j"
  proof (intro allI impI)
    fix j :: nat
    assume "j < 1"
    then have "j = 0" by simp
    with s0 show "stopCondition ?env j = None \<and> \<not> waitsForever ?env j" by simp
  qed
  from reader_returns_at_first_stop_condition
         [OF o, of ?env "''t1''", THEN conjunct1, rule_format, OF conjI [OF s1 before]]
  have "\<exists>r. processSSEStream ?env ''t1'' make_chan = Some (Inr r)
          \<and> closed (channel r) \<and> respBodyClosed r
          \<and> last (logs r) = Debugf_ReceivedClose ''t1'' ''bye''"
  proof (elim exE conjE)
    fix st' r
    assume p: "processSSEStream ?env ''t1'' make_chan = Some (Inr r)"
      and c: "channel r = (eventsChan st')\<lparr>closed := True\<rparr>"
      and b: "respBodyClosed r"
      and l: "last (logs r) = report ''t1'' (CloseFrame ''bye'')"
    from c have c': "closed (channel r)" by simp
    from l have l': "last (logs r) = Debugf_ReceivedClose ''t1'' ''bye''" by simp
    from p c' b l' show ?thesis by (intro exI [of _ r] conjI)
  qed
  with o s1 show ?thesis by (intro conjI)
qed

text \<open>
  Claim C8 as stated fails: the first frame of the stream is a \<^verbatim>\<open>close\<close> frame
  (with an empty payload), which the claim names as a condition on which the reader
  terminates; the reader goes past it, delivers the events of the two frames that
  follow, and terminates only at the end of the stream, which is what it reports.
\<close>

theorem reader_passes_empty_close_frame_counterexample:
  "ReadEvent (exampleStream [([], ''close''), (''status-json'', ''task_status_update''),
                              (''status-json'', ''task_status_update'')]) 0
     = ([], EventClose, None)
   \<and> processSSEStream
       (exampleStream [([], ''close''), (''status-json'', ''task_status_update''),
                       (''status-json'', ''task_status_update'')]) ''t1'' make_chan
     = Some (Inr \<lparr> channel = \<lparr>sent = [StatusUpdate exampleStatusEvent,
                                        StatusUpdate exampleStatusEvent], closed = True\<rparr>,
                   respBodyClosed = True,
                   logs = [Debugf_ProcessorStarted ''t1'', Debugf_StreamEndedEOF ''t1''] \<rparr>)"
  by (simp add: processSSEStream_def readLoop.simps loopBody_def sendEvent_def
      exampleStream_def chan_send_def chan_close_def make_chan_def logf_def EventClose_def
      EventTaskStatusUpdate_def EventTaskArtifactUpdate_def io_EOF_def)

end
